theory Spec2Isabelle
  imports Main "HOL-Library.Word" "HOL-Library.AList"
begin

unbundle bit_operations_syntax

section \<open>Go values\<close>

text \<open>
  Go's \<open>int\<close> is a 64-bit two's-complement integer: \<open>+\<close> and \<open>-\<close> wrap, comparisons
  are signed (\<open><s\<close>, \<open>\<le>s\<close>), and \<open>len\<close> of a slice is \<open>of_nat (length xs)\<close>.
  In the rate limiter, which compares times with \<open>Before\<close> and \<open>After\<close> and computes with
  \<open>Truncate\<close> and \<open>Add\<close>, a \<open>time.Time\<close> is modelled by its instant, an integer count of
  nanoseconds since Go's zero time (\<open>time.Time{}\<close> is \<open>0\<close>); \<open>Before\<close> and \<open>After\<close> are \<open><\<close>
  and \<open>>\<close> on instants.  A \<open>time.Duration\<close> is a signed 64-bit count of nanoseconds.
  The wall clock enters as a parameter.  \<open>handleApplyRateLimit\<close> receives every one of
  its readings of \<open>time.Now()\<close> separately, in a record \<open>ApplyClock\<close>: the fields of the
  event it emits come from different readings.  The other operations take one reading
  \<open>now\<close> for the identifiers and time stamps they write.
\<close>

type_synonym go_int = "64 word"
type_synonym time = int
type_synonym duration = "64 word"

definition zeroTime :: time where
  "zeroTime = 0"

definition Add :: "time \<Rightarrow> duration \<Rightarrow> time" where
  "Add t d = t + sint d"

definition Truncate :: "time \<Rightarrow> duration \<Rightarrow> time" where
  "Truncate t d = (if sint d \<le> 0 then t else t - t mod sint d)"

definition UnixNano :: "time \<Rightarrow> go_int" where
  "UnixNano t = word_of_int (t - 62135596800000000000)"

fun digitsOf :: "nat \<Rightarrow> string" where
  "digitsOf n = (if n < 10 then [''0123456789'' ! n]
                 else digitsOf (n div 10) @ [''0123456789'' ! (n mod 10)])"

declare digitsOf.simps [simp del]

definition formatInt :: "go_int \<Rightarrow> string" where
  "formatInt i = (if i <s 0 then CHR ''-'' # digitsOf (nat (- sint i)) else digitsOf (nat (sint i)))"

datatype error =
    Panic
  | ConcurrencyConflict go_int go_int
  | NoRulesFound string
  | RuleNotFound string
  | UnknownCommand
  | Wrapped string error

text \<open>\<open>fmt.Errorf("...: %w", err)\<close> wraps an error value; a panic unwinds through it.\<close>

fun wrapErr :: "string \<Rightarrow> error \<Rightarrow> error" where
  "wrapErr msg Panic = Panic"
| "wrapErr msg e = Wrapped msg e"

section \<open>Rate limiter: domain\<close>

record BaseEvent =
  ev_ID :: string
  ev_Type :: string
  ev_Time :: time
  ev_AggrID :: string
  ev_Version :: go_int

record RateLimitRequestedEvent = BaseEvent +
  rq_ClientID :: string
  rq_Resource :: string
  rq_RequestedAt :: time
  rq_IPAddress :: string
  rq_UserAgent :: string

record RateLimitAppliedEvent = BaseEvent +
  ap_ClientID :: string
  ap_Resource :: string
  ap_WindowStart :: time
  ap_WindowEnd :: time
  ap_RequestCount :: go_int
  ap_Limit :: go_int
  ap_RemainingQuota :: go_int

record RateLimitExceededEvent = BaseEvent +
  ex_ClientID :: string
  ex_Resource :: string
  ex_RequestCount :: go_int
  ex_Limit :: go_int
  ex_WindowStart :: time
  ex_WindowEnd :: time
  ex_BlockedUntil :: time

record RateLimitWindowResetEvent = BaseEvent +
  rs_ClientID :: string
  rs_Resource :: string
  rs_WindowStart :: time

text \<open>The interface \<open>Event\<close> with the four struct types that implement it.\<close>

datatype Event =
    ERequested RateLimitRequestedEvent
  | EApplied RateLimitAppliedEvent
  | EExceeded RateLimitExceededEvent
  | EWindowReset RateLimitWindowResetEvent

fun EventID :: "Event \<Rightarrow> string" where
  "EventID (ERequested e) = ev_ID e"
| "EventID (EApplied e) = ev_ID e"
| "EventID (EExceeded e) = ev_ID e"
| "EventID (EWindowReset e) = ev_ID e"

fun EventType :: "Event \<Rightarrow> string" where
  "EventType (ERequested e) = ev_Type e"
| "EventType (EApplied e) = ev_Type e"
| "EventType (EExceeded e) = ev_Type e"
| "EventType (EWindowReset e) = ev_Type e"

fun Timestamp :: "Event \<Rightarrow> time" where
  "Timestamp (ERequested e) = ev_Time e"
| "Timestamp (EApplied e) = ev_Time e"
| "Timestamp (EExceeded e) = ev_Time e"
| "Timestamp (EWindowReset e) = ev_Time e"

fun AggregateID :: "Event \<Rightarrow> string" where
  "AggregateID (ERequested e) = ev_AggrID e"
| "AggregateID (EApplied e) = ev_AggrID e"
| "AggregateID (EExceeded e) = ev_AggrID e"
| "AggregateID (EWindowReset e) = ev_AggrID e"

record RateLimitRule =
  rl_ID :: string
  rl_Resource :: string
  rl_Limit :: go_int
  rl_Window :: duration
  rl_Algorithm :: string
  rl_CreatedAt :: time
  rl_UpdatedAt :: time

record RateLimitState =
  st_ClientID :: string
  st_Resource :: string
  st_RequestCount :: go_int
  st_WindowStart :: time
  st_WindowEnd :: time
  st_RemainingQuota :: go_int
  st_LastRequestAt :: time
  st_IsBlocked :: bool
  st_BlockedUntil :: time
  st_Version :: go_int

record RateLimitAggregate =
  agg_ID :: string
  agg_State :: RateLimitState
  agg_Rules :: "RateLimitRule list"
  agg_Events :: "Event list"
  agg_Version :: go_int

definition NewRateLimitAggregate :: "string \<Rightarrow> string \<Rightarrow> RateLimitAggregate" where
  "NewRateLimitAggregate clientID resource =
     \<lparr> agg_ID = clientID @ '':'' @ resource,
       agg_State = \<lparr> st_ClientID = clientID, st_Resource = resource, st_RequestCount = 0,
                     st_WindowStart = zeroTime, st_WindowEnd = zeroTime, st_RemainingQuota = 0,
                     st_LastRequestAt = zeroTime, st_IsBlocked = False,
                     st_BlockedUntil = zeroTime, st_Version = 0 \<rparr>,
       agg_Rules = [],
       agg_Events = [],
       agg_Version = 0 \<rparr>"

text \<open>The type switch of \<open>ApplyEvent\<close>: the state update of each case; an event of any
  other type leaves the state as it is.\<close>

fun applyToState :: "time \<Rightarrow> RateLimitState \<Rightarrow> Event \<Rightarrow> RateLimitState" where
  "applyToState now s (EApplied e) =
     s\<lparr> st_RequestCount := ap_RequestCount e, st_WindowStart := ap_WindowStart e,
        st_WindowEnd := ap_WindowEnd e, st_RemainingQuota := ap_RemainingQuota e,
        st_LastRequestAt := now \<rparr>"
| "applyToState now s (EExceeded e) =
     s\<lparr> st_IsBlocked := True, st_BlockedUntil := ex_BlockedUntil e,
        st_RequestCount := ex_RequestCount e \<rparr>"
| "applyToState now s (EWindowReset e) =
     s\<lparr> st_RequestCount := 0, st_WindowStart := rs_WindowStart e,
        st_IsBlocked := False, st_BlockedUntil := zeroTime \<rparr>"
| "applyToState now s (ERequested e) = s"

definition ApplyEvent :: "time \<Rightarrow> RateLimitAggregate \<Rightarrow> Event \<Rightarrow> RateLimitAggregate" where
  "ApplyEvent now a event =
     a\<lparr> agg_State := applyToState now (agg_State a) event,
        agg_Version := agg_Version a + 1,
        agg_Events := agg_Events a @ [event] \<rparr>"

text \<open>\<open>CanMakeRequest\<close> receives the rule and does not read it.\<close>

definition CanMakeRequest :: "time \<Rightarrow> RateLimitAggregate \<Rightarrow> RateLimitRule \<Rightarrow> bool" where
  "CanMakeRequest now a rule =
     (if st_IsBlocked (agg_State a) \<and> now < st_BlockedUntil (agg_State a) then False
      else if st_WindowEnd (agg_State a) < now then True
      else 0 <s st_RemainingQuota (agg_State a))"

text \<open>Replaying a sequence of events, each applied at its own clock reading.\<close>

fun applyEvents :: "RateLimitAggregate \<Rightarrow> (time \<times> Event) list \<Rightarrow> RateLimitAggregate" where
  "applyEvents a [] = a"
| "applyEvents a ((t, e) # es) = applyEvents (ApplyEvent t a e) es"

section \<open>Rate limiter: event store\<close>

type_synonym InMemoryEventStore = "string \<rightharpoonup> Event list"

definition NewInMemoryEventStore :: InMemoryEventStore where
  "NewInMemoryEventStore = Map.empty"

text \<open>Indexing a Go map at an absent key gives the nil slice, of length 0.\<close>

definition stored :: "InMemoryEventStore \<Rightarrow> string \<Rightarrow> Event list" where
  "stored s aggregateID = (case s aggregateID of None \<Rightarrow> [] | Some es \<Rightarrow> es)"

definition SaveEvents ::
  "InMemoryEventStore \<Rightarrow> string \<Rightarrow> Event list \<Rightarrow> go_int \<Rightarrow> (error + unit) \<times> InMemoryEventStore" where
  "SaveEvents s aggregateID events expectedVersion =
     (let existingEvents = stored s aggregateID in
      if of_nat (length existingEvents) \<noteq> expectedVersion
      then (Inl (ConcurrencyConflict expectedVersion (of_nat (length existingEvents))), s)
      else (Inr (), s(aggregateID \<mapsto> existingEvents @ events)))"

definition GetEvents :: "InMemoryEventStore \<Rightarrow> string \<Rightarrow> Event list" where
  "GetEvents s aggregateID = stored s aggregateID"

section \<open>Rate limiter: rule repository\<close>

text \<open>
  \<open>map[string]RateLimitRule\<close>.  Go ranges over a map in an unspecified order; the
  repository is an association list with distinct keys, and its order stands for the
  order in which one \<open>range\<close> visits the entries.  Nothing below depends on it.
\<close>

type_synonym InMemoryRuleRepository = "(string \<times> RateLimitRule) list"

definition NewInMemoryRuleRepository :: InMemoryRuleRepository where
  "NewInMemoryRuleRepository = []"

definition Save :: "InMemoryRuleRepository \<Rightarrow> RateLimitRule \<Rightarrow> (error + unit) \<times> InMemoryRuleRepository" where
  "Save r rule = (Inr (), AList.update (rl_ID rule) rule r)"

definition GetByResource :: "InMemoryRuleRepository \<Rightarrow> string \<Rightarrow> RateLimitRule list" where
  "GetByResource r resource = filter (\<lambda>rule. rl_Resource rule = resource) (map snd r)"

definition GetByID :: "InMemoryRuleRepository \<Rightarrow> string \<Rightarrow> error + RateLimitRule" where
  "GetByID r ident = (case map_of r ident of None \<Rightarrow> Inl (RuleNotFound ident) | Some rule \<Rightarrow> Inr rule)"

definition Update :: "InMemoryRuleRepository \<Rightarrow> RateLimitRule \<Rightarrow> (error + unit) \<times> InMemoryRuleRepository" where
  "Update r rule =
     (case map_of r (rl_ID rule) of
        None \<Rightarrow> (Inl (RuleNotFound (rl_ID rule)), r)
      | Some old \<Rightarrow> (Inr (), AList.update (rl_ID rule) rule r))"

definition Delete :: "InMemoryRuleRepository \<Rightarrow> string \<Rightarrow> (error + unit) \<times> InMemoryRuleRepository" where
  "Delete r ident =
     (case map_of r ident of
        None \<Rightarrow> (Inl (RuleNotFound ident), r)
      | Some old \<Rightarrow> (Inr (), AList.delete ident r))"

section \<open>Rate limiter: read model\<close>

record RateLimitStatus =
  q_ClientID :: string
  q_Resource :: string
  q_IsAllowed :: bool
  q_RequestCount :: go_int
  q_Limit :: go_int
  q_RemainingQuota :: go_int
  q_WindowStart :: time
  q_WindowEnd :: time
  q_ResetTime :: time
  q_IsBlocked :: bool
  q_BlockedUntil :: time
  q_RetryAfter :: go_int

record RateLimitEvent =
  h_EventID :: string
  h_EventType :: string
  h_ClientID :: string
  h_Resource :: string
  h_Timestamp :: time
  h_RequestCount :: go_int
  h_Limit :: go_int
  h_IsBlocked :: bool
  h_Metadata :: "string \<rightharpoonup> string"

record RateLimitHistory =
  Events :: "RateLimitEvent list"
  TotalCount :: go_int
  HasMore :: bool

text \<open>
  The status and history indices of \<open>InMemoryReadModel\<close>.  Its third index, the client
  statistics, is written only by the projection of applied and exceeded events and read
  only by \<open>GetClientStats\<close>; neither is modelled.
\<close>

record InMemoryReadModel =
  statuses :: "string \<rightharpoonup> RateLimitStatus"
  history :: "string \<rightharpoonup> RateLimitEvent list"

definition NewInMemoryReadModel :: InMemoryReadModel where
  "NewInMemoryReadModel = \<lparr> statuses = Map.empty, history = Map.empty \<rparr>"

definition Hour :: duration where
  "Hour = 3600000000000"

definition GetRateLimitStatus :: "time \<Rightarrow> InMemoryReadModel \<Rightarrow> string \<Rightarrow> string \<Rightarrow> RateLimitStatus" where
  "GetRateLimitStatus now r clientID resource =
     (let key = clientID @ '':'' @ resource in
      case statuses r key of
        None \<Rightarrow>
          \<lparr> q_ClientID = clientID, q_Resource = resource, q_IsAllowed = True,
            q_RequestCount = 0, q_Limit = 0, q_RemainingQuota = 0,
            q_WindowStart = now, q_WindowEnd = Add now Hour, q_ResetTime = Add now Hour,
            q_IsBlocked = False, q_BlockedUntil = zeroTime, q_RetryAfter = 0 \<rparr>
      | Some status \<Rightarrow> status)"

text \<open>
  \<open>filteredEvents[start:end]\<close> panics when \<open>start < 0\<close> or \<open>end < start\<close>; \<open>end\<close> never
  exceeds the length here.  \<open>offset + limit\<close> wraps.
\<close>

text \<open>Indexing the history at an absent key gives the nil slice.\<close>

definition recorded :: "InMemoryReadModel \<Rightarrow> string \<Rightarrow> RateLimitEvent list" where
  "recorded r key = (case history r key of None \<Rightarrow> [] | Some es \<Rightarrow> es)"

definition GetRateLimitHistory ::
  "InMemoryReadModel \<Rightarrow> string \<Rightarrow> string \<Rightarrow> time \<Rightarrow> time \<Rightarrow> go_int \<Rightarrow> go_int \<Rightarrow> error + RateLimitHistory" where
  "GetRateLimitHistory r clientID resource startTime endTime limit offset =
     (let key = clientID @ '':'' @ resource;
          allEvents = recorded r key;
          filteredEvents = filter (\<lambda>event. startTime < h_Timestamp event \<and> h_Timestamp event < endTime) allEvents;
          totalCount = (of_nat (length filteredEvents) :: go_int);
          start = offset;
          end0 = offset + limit
      in if totalCount \<le>s start
         then Inr \<lparr> Events = [], TotalCount = totalCount, HasMore = False \<rparr>
         else
           let end1 = (if totalCount <s end0 then totalCount else end0) in
           if start <s 0 \<or> end1 <s start then Inl Panic
           else Inr \<lparr> Events = take (nat (sint end1) - nat (sint start)) (drop (nat (sint start)) filteredEvents),
                      TotalCount = totalCount,
                      HasMore = (end1 <s totalCount) \<rparr>)"

text \<open>The projection of a window reset: the status, when there is one, is updated in
  place; a history record is appended.\<close>

definition updateFromWindowReset :: "InMemoryReadModel \<Rightarrow> RateLimitWindowResetEvent \<Rightarrow> InMemoryReadModel" where
  "updateFromWindowReset r event =
     (let key = rs_ClientID event @ '':'' @ rs_Resource event;
          statuses1 = (case statuses r key of
                         None \<Rightarrow> statuses r
                       | Some status \<Rightarrow>
                           (statuses r)(key \<mapsto>
                             status\<lparr> q_RequestCount := 0, q_RemainingQuota := q_Limit status,
                                     q_WindowStart := rs_WindowStart event, q_IsBlocked := False,
                                     q_BlockedUntil := zeroTime, q_RetryAfter := 0 \<rparr>));
          historyEvent = \<lparr> h_EventID = ev_ID event, h_EventType = ev_Type event,
                           h_ClientID = rs_ClientID event, h_Resource = rs_Resource event,
                           h_Timestamp = ev_Time event, h_RequestCount = 0, h_Limit = 0,
                           h_IsBlocked = False, h_Metadata = Map.empty \<rparr>
      in \<lparr> statuses = statuses1,
           history = (history r)(key \<mapsto> recorded r key @ [historyEvent]) \<rparr>)"

section \<open>Rate limiter: command handler\<close>

text \<open>
  The event store, the rule repository and the read model that \<open>main\<close> wires into the
  command handler, the query handler and the service.  The command handler writes the
  event store and the rule repository only; nothing in the repository publishes to the
  event bus, so no command reaches the read model.
\<close>

record RateLimiter =
  eventStore :: InMemoryEventStore
  ruleRepository :: InMemoryRuleRepository
  readModel :: InMemoryReadModel

text \<open>The commands; the envelope \<open>BaseCommand\<close> (id, type, time) is read by no handler
  and is left out.\<close>

datatype Command =
    CheckRateLimitCommand string string string string "string \<rightharpoonup> string"
  | ApplyRateLimitCommand string string time string string
  | CreateRuleCommand string go_int duration string
  | UpdateRuleCommand string string go_int duration string
  | ResetRateLimitCommand string string

text \<open>
  The readings of the wall clock in one run of \<open>handleApplyRateLimit\<close>, in the order of
  its calls of \<open>time.Now()\<close>: in \<open>ApplyEvent\<close> while the event at index \<open>k\<close> of the stream
  is replayed (\<open>replayAt k\<close>), in \<open>CanMakeRequest\<close>, for the \<open>ID\<close> and for the \<open>Time\<close> of the
  new event, and, when the request is admitted, for its \<open>WindowStart\<close> and for its
  \<open>WindowEnd\<close>.
\<close>

record ApplyClock =
  replayAt :: "nat \<Rightarrow> time"
  canMakeAt :: time
  idAt :: time
  timeAt :: time
  windowStartAt :: time
  windowEndAt :: time

text \<open>The loop that rebuilds the aggregate from the stored events.\<close>

definition rehydrate :: "(nat \<Rightarrow> time) \<Rightarrow> string \<Rightarrow> string \<Rightarrow> Event list \<Rightarrow> RateLimitAggregate" where
  "rehydrate readings clientID resource events =
     applyEvents (NewRateLimitAggregate clientID resource)
       (zip (map readings [0..<length events]) events)"

definition handleApplyRateLimit :: "ApplyClock \<Rightarrow> RateLimiter \<Rightarrow> string \<Rightarrow> string \<Rightarrow> (error + unit) \<times> RateLimiter" where
  "handleApplyRateLimit clk h clientID resource =
     (let aggregateID = clientID @ '':'' @ resource;
          events = GetEvents (eventStore h) aggregateID;
          aggregate = rehydrate (replayAt clk) clientID resource events;
          rules = GetByResource (ruleRepository h) resource
      in case rules of
           [] \<Rightarrow> (Inl (NoRulesFound resource), h)
         | rule # others \<Rightarrow>
             let newEvents =
               (if CanMakeRequest (canMakeAt clk) aggregate rule
                then [EApplied
                       \<lparr> ev_ID = ''applied-'' @ formatInt (UnixNano (idAt clk)),
                         ev_Type = ''RateLimitApplied'',
                         ev_Time = timeAt clk,
                         ev_AggrID = aggregateID,
                         ev_Version = agg_Version aggregate + 1,
                         ap_ClientID = clientID,
                         ap_Resource = resource,
                         ap_WindowStart = Truncate (windowStartAt clk) (rl_Window rule),
                         ap_WindowEnd = Add (Truncate (windowEndAt clk) (rl_Window rule)) (rl_Window rule),
                         ap_RequestCount = st_RequestCount (agg_State aggregate) + 1,
                         ap_Limit = rl_Limit rule,
                         ap_RemainingQuota = rl_Limit rule - (st_RequestCount (agg_State aggregate) + 1) \<rparr>]
                else [EExceeded
                       \<lparr> ev_ID = ''exceeded-'' @ formatInt (UnixNano (idAt clk)),
                         ev_Type = ''RateLimitExceeded'',
                         ev_Time = timeAt clk,
                         ev_AggrID = aggregateID,
                         ev_Version = agg_Version aggregate + 1,
                         ex_ClientID = clientID,
                         ex_Resource = resource,
                         ex_RequestCount = st_RequestCount (agg_State aggregate) + 1,
                         ex_Limit = rl_Limit rule,
                         ex_WindowStart = st_WindowStart (agg_State aggregate),
                         ex_WindowEnd = st_WindowEnd (agg_State aggregate),
                         ex_BlockedUntil = st_WindowEnd (agg_State aggregate) \<rparr>])
             in case SaveEvents (eventStore h) aggregateID newEvents (agg_Version aggregate) of
                  (res, store) \<Rightarrow> (res, h\<lparr> eventStore := store \<rparr>))"

definition handleCreateRule ::
  "time \<Rightarrow> RateLimiter \<Rightarrow> string \<Rightarrow> go_int \<Rightarrow> duration \<Rightarrow> string \<Rightarrow> (error + unit) \<times> RateLimiter" where
  "handleCreateRule now h resource limit window algorithm =
     (let rule = \<lparr> rl_ID = ''rule-'' @ formatInt (UnixNano now), rl_Resource = resource,
                   rl_Limit = limit, rl_Window = window, rl_Algorithm = algorithm,
                   rl_CreatedAt = now, rl_UpdatedAt = now \<rparr>
      in case Save (ruleRepository h) rule of
           (res, repo) \<Rightarrow> (res, h\<lparr> ruleRepository := repo \<rparr>))"

definition handleUpdateRule ::
  "time \<Rightarrow> RateLimiter \<Rightarrow> string \<Rightarrow> string \<Rightarrow> go_int \<Rightarrow> duration \<Rightarrow> string \<Rightarrow> (error + unit) \<times> RateLimiter" where
  "handleUpdateRule now h ruleID resource limit window algorithm =
     (case GetByID (ruleRepository h) ruleID of
        Inl err \<Rightarrow> (Inl (wrapErr ''failed to get rule'' err), h)
      | Inr rule \<Rightarrow>
          (case Update (ruleRepository h)
                  (rule\<lparr> rl_Resource := resource, rl_Limit := limit, rl_Window := window,
                         rl_Algorithm := algorithm, rl_UpdatedAt := now \<rparr>) of
             (res, repo) \<Rightarrow> (res, h\<lparr> ruleRepository := repo \<rparr>)))"

definition handleResetRateLimit :: "time \<Rightarrow> RateLimiter \<Rightarrow> string \<Rightarrow> string \<Rightarrow> (error + unit) \<times> RateLimiter" where
  "handleResetRateLimit now h clientID resource =
     (let aggregateID = clientID @ '':'' @ resource;
          event = \<lparr> ev_ID = ''reset-'' @ formatInt (UnixNano now),
                    ev_Type = ''RateLimitWindowReset'',
                    ev_Time = now,
                    ev_AggrID = aggregateID,
                    ev_Version = 1,
                    rs_ClientID = clientID,
                    rs_Resource = resource,
                    rs_WindowStart = now \<rparr>
      in case SaveEvents (eventStore h) aggregateID [EWindowReset event] 0 of
           (res, store) \<Rightarrow> (res, h\<lparr> eventStore := store \<rparr>))"

text \<open>The dispatch receives the reading \<open>now\<close> for the handlers that take one, and the
  readings \<open>clk\<close> for \<open>handleApplyRateLimit\<close>.\<close>

fun Handle :: "time \<Rightarrow> ApplyClock \<Rightarrow> RateLimiter \<Rightarrow> Command \<Rightarrow> (error + unit) \<times> RateLimiter" where
  "Handle now clk h (ApplyRateLimitCommand clientID resource requestedAt ipAddress userAgent) =
     handleApplyRateLimit clk h clientID resource"
| "Handle now clk h (CreateRuleCommand resource limit window algorithm) =
     handleCreateRule now h resource limit window algorithm"
| "Handle now clk h (UpdateRuleCommand ruleID resource limit window algorithm) =
     handleUpdateRule now h ruleID resource limit window algorithm"
| "Handle now clk h (ResetRateLimitCommand clientID resource) =
     handleResetRateLimit now h clientID resource"
| "Handle now clk h (CheckRateLimitCommand clientID resource ipAddress userAgent metadata) =
     (Inl UnknownCommand, h)"

section \<open>Rate limiter: service\<close>

text \<open>The query handler passes a status query on to the read model.\<close>

definition handleGetRateLimitStatus :: "time \<Rightarrow> RateLimiter \<Rightarrow> string \<Rightarrow> string \<Rightarrow> RateLimitStatus" where
  "handleGetRateLimitStatus now s clientID resource = GetRateLimitStatus now (readModel s) clientID resource"

definition handleGetRateLimitHistory ::
  "RateLimiter \<Rightarrow> string \<Rightarrow> string \<Rightarrow> time \<Rightarrow> time \<Rightarrow> go_int \<Rightarrow> go_int \<Rightarrow> error + RateLimitHistory" where
  "handleGetRateLimitHistory s clientID resource startTime endTime limit offset =
     (case GetRateLimitHistory (readModel s) clientID resource startTime endTime limit offset of
        Inl err \<Rightarrow> Inl (wrapErr ''failed to get rate limit history'' err)
      | Inr h \<Rightarrow> Inr h)"

definition CheckRateLimit ::
  "time \<Rightarrow> ApplyClock \<Rightarrow> RateLimiter \<Rightarrow> string \<Rightarrow> string \<Rightarrow> string \<Rightarrow> string
     \<Rightarrow> (error + RateLimitStatus) \<times> RateLimiter" where
  "CheckRateLimit now clk s clientID resource ipAddress userAgent =
     (let currentStatus = handleGetRateLimitStatus now s clientID resource in
      if q_IsBlocked currentStatus \<and> now < q_BlockedUntil currentStatus
      then (Inr currentStatus, s)
      else
        case Handle now clk s (ApplyRateLimitCommand clientID resource now ipAddress userAgent) of
          (Inl err, s1) \<Rightarrow> (Inl (wrapErr ''failed to apply rate limit'' err), s1)
        | (Inr u, s1) \<Rightarrow> (Inr (handleGetRateLimitStatus now s1 clientID resource), s1))"

definition CreateRule ::
  "time \<Rightarrow> ApplyClock \<Rightarrow> RateLimiter \<Rightarrow> string \<Rightarrow> go_int \<Rightarrow> duration \<Rightarrow> string
     \<Rightarrow> (error + unit) \<times> RateLimiter" where
  "CreateRule now clk s resource limit window algorithm =
     Handle now clk s (CreateRuleCommand resource limit window algorithm)"

definition ResetRateLimit ::
  "time \<Rightarrow> ApplyClock \<Rightarrow> RateLimiter \<Rightarrow> string \<Rightarrow> string \<Rightarrow> (error + unit) \<times> RateLimiter" where
  "ResetRateLimit now clk s clientID resource =
     Handle now clk s (ResetRateLimitCommand clientID resource)"

section \<open>Rule engine: dynamic values\<close>

text \<open>
  The dynamic values that a Go \<open>interface{}\<close> holds in conditions, action parameters
  and request data: nil, \<open>bool\<close>, \<open>string\<close>, \<open>int\<close>, \<open>int64\<close>, \<open>float32\<close> and \<open>float64\<close>
  (as IEEE 754 bit patterns), \<open>time.Time\<close>, \<open>[]interface{}\<close>, \<open>[]string\<close> and
  \<open>map[string]interface{}\<close>.  A \<open>time.Time\<close> held in an interface is the struct itself,
  with its fields \<open>wall\<close>, \<open>ext\<close> (which carry the instant and the monotonic reading)
  and \<open>loc\<close> (the pointer to its location, as an address): the rule engine only
  compares such values with \<open>==\<close>, which compares the three fields.
\<close>

record GoTime =
  wall :: "64 word"
  ext :: "64 word"
  loc :: nat

datatype gvalue =
    GNil
  | GBool bool
  | GString string
  | GInt go_int
  | GInt64 "64 word"
  | GFloat32 "32 word"
  | GFloat64 "64 word"
  | GTime GoTime
  | GSlice "gvalue list"
  | GStrings "string list"
  | GMap "(string \<times> gvalue) list"

definition isNaN64 :: "64 word \<Rightarrow> bool" where
  "isNaN64 w = (w AND 0x7FF0000000000000 = 0x7FF0000000000000 \<and> w AND 0x000FFFFFFFFFFFFF \<noteq> 0)"

definition isNaN32 :: "32 word \<Rightarrow> bool" where
  "isNaN32 w = (w AND 0x7F800000 = 0x7F800000 \<and> w AND 0x007FFFFF \<noteq> 0)"

text \<open>\<open>==\<close> on floating-point numbers: a NaN equals nothing, the two zeros are equal.\<close>

definition float64_eq :: "64 word \<Rightarrow> 64 word \<Rightarrow> bool" where
  "float64_eq a b =
     (\<not> isNaN64 a \<and> \<not> isNaN64 b
      \<and> (a = b \<or> (a AND 0x7FFFFFFFFFFFFFFF = 0 \<and> b AND 0x7FFFFFFFFFFFFFFF = 0)))"

definition float32_eq :: "32 word \<Rightarrow> 32 word \<Rightarrow> bool" where
  "float32_eq a b =
     (\<not> isNaN32 a \<and> \<not> isNaN32 b
      \<and> (a = b \<or> (a AND 0x7FFFFFFF = 0 \<and> b AND 0x7FFFFFFF = 0)))"

text \<open>\<open><\<close> on \<open>float64\<close>: sign and magnitude, a NaN is below and above nothing.\<close>

definition float64_key :: "64 word \<Rightarrow> int" where
  "float64_key w = (if bit w 63 then - uint (w AND 0x7FFFFFFFFFFFFFFF) else uint w)"

definition float64_less :: "64 word \<Rightarrow> 64 word \<Rightarrow> bool" where
  "float64_less a b = (\<not> isNaN64 a \<and> \<not> isNaN64 b \<and> float64_key a < float64_key b)"

text \<open>
  \<open>==\<close> on two interface values: false when the dynamic types differ, the comparison
  of the values when they agree, and a run-time panic when they agree on a type that
  is not comparable (a slice or a map).  Two \<open>time.Time\<close> values are equal when their
  three fields are.
\<close>

definition ifaceEq :: "gvalue \<Rightarrow> gvalue \<Rightarrow> error + bool" where
  "ifaceEq x y =
     (case x of
        GNil \<Rightarrow> (case y of GNil \<Rightarrow> Inr True | _ \<Rightarrow> Inr False)
      | GBool a \<Rightarrow> (case y of GBool b \<Rightarrow> Inr (a = b) | _ \<Rightarrow> Inr False)
      | GString a \<Rightarrow> (case y of GString b \<Rightarrow> Inr (a = b) | _ \<Rightarrow> Inr False)
      | GInt a \<Rightarrow> (case y of GInt b \<Rightarrow> Inr (a = b) | _ \<Rightarrow> Inr False)
      | GInt64 a \<Rightarrow> (case y of GInt64 b \<Rightarrow> Inr (a = b) | _ \<Rightarrow> Inr False)
      | GFloat32 a \<Rightarrow> (case y of GFloat32 b \<Rightarrow> Inr (float32_eq a b) | _ \<Rightarrow> Inr False)
      | GFloat64 a \<Rightarrow> (case y of GFloat64 b \<Rightarrow> Inr (float64_eq a b) | _ \<Rightarrow> Inr False)
      | GTime a \<Rightarrow> (case y of GTime b \<Rightarrow> Inr (a = b) | _ \<Rightarrow> Inr False)
      | GSlice a \<Rightarrow> (case y of GSlice b \<Rightarrow> Inl Panic | _ \<Rightarrow> Inr False)
      | GStrings a \<Rightarrow> (case y of GStrings b \<Rightarrow> Inl Panic | _ \<Rightarrow> Inr False)
      | GMap a \<Rightarrow> (case y of GMap b \<Rightarrow> Inl Panic | _ \<Rightarrow> Inr False))"

text \<open>
  The conversions between integers and floating-point numbers and the two parsers of
  the Go library are not part of the repository; they enter as parameters.
\<close>

record GoLib =
  float64_of_int :: "64 word \<Rightarrow> 64 word"
  float64_of_float32 :: "32 word \<Rightarrow> 64 word"
  int_of_float64 :: "64 word \<Rightarrow> 64 word"
  Atoi :: "string \<Rightarrow> go_int option"
  ParseDuration :: "string \<Rightarrow> duration option"

definition Second :: duration where
  "Second = 1000000000"

section \<open>Rule engine: domain\<close>

record RuleCondition =
  cond_Field :: string
  cond_Operator :: string
  cond_Value :: gvalue

record RuleAction =
  act_Type :: string
  act_Parameters :: "string \<rightharpoonup> gvalue"

record Rule =
  rule_ID :: string
  rule_Name :: string
  rule_Type :: string
  rule_Description :: string
  rule_Priority :: go_int
  rule_Enabled :: bool
  rule_Conditions :: "RuleCondition list"
  rule_Actions :: "RuleAction list"
  rule_CreatedAt :: time
  rule_UpdatedAt :: time
  rule_CreatedBy :: string
  rule_Tags :: "string list"

record RuleEvaluationContext =
  ctx_ClientID :: string
  ctx_Resource :: string
  ctx_IPAddress :: string
  ctx_UserAgent :: string
  ctx_Timestamp :: GoTime
  ctx_Metadata :: "string \<rightharpoonup> string"
  ctx_RequestData :: "string \<rightharpoonup> gvalue"

record RuleEvaluationResult =
  res_RuleID :: string
  res_RuleName :: string
  res_Matched :: bool
  res_Actions :: "RuleAction list"
  res_Metadata :: "string \<rightharpoonup> gvalue"
  res_EvaluatedAt :: time

text \<open>The loop of \<open>findSubstring\<close>, from index \<open>i\<close> on.\<close>

function findSubstringFrom :: "string \<Rightarrow> string \<Rightarrow> nat \<Rightarrow> go_int" where
  "findSubstringFrom str substr i =
     (if i + length substr \<le> length str
      then (if take (length substr) (drop i str) = substr then of_nat i
            else findSubstringFrom str substr (Suc i))
      else - 1)"
  by pat_completeness auto
termination
  by (relation "measure (\<lambda>(str, substr, i). Suc (length str) - (i + length substr))") auto

declare findSubstringFrom.simps [simp del]

definition findSubstring :: "string \<Rightarrow> string \<Rightarrow> go_int" where
  "findSubstring str substr =
     (if length substr = 0 then 0
      else if length str < length substr then - 1
      else findSubstringFrom str substr 0)"

definition containsString :: "string \<Rightarrow> string \<Rightarrow> bool" where
  "containsString str substr =
     (length substr \<le> length str \<and> str \<noteq> substr \<and> findSubstring str substr \<noteq> - 1)"

text \<open>The type switches of \<open>compareNumbers\<close>; \<open>None\<close> is the default case.\<close>

fun toFloat64 :: "GoLib \<Rightarrow> gvalue \<Rightarrow> 64 word option" where
  "toFloat64 lib (GInt v) = Some (float64_of_int lib v)"
| "toFloat64 lib (GInt64 v) = Some (float64_of_int lib v)"
| "toFloat64 lib (GFloat64 v) = Some v"
| "toFloat64 lib (GFloat32 v) = Some (float64_of_float32 lib v)"
| "toFloat64 lib v = None"

text \<open>The variable \<open>ok\<close> is declared, never assigned, and tested.\<close>

definition compareNumbers :: "GoLib \<Rightarrow> gvalue \<Rightarrow> gvalue \<Rightarrow> go_int" where
  "compareNumbers lib a b =
     (case toFloat64 lib a of
        None \<Rightarrow> 0
      | Some aVal \<Rightarrow>
          (case toFloat64 lib b of
             None \<Rightarrow> 0
           | Some bVal \<Rightarrow>
               (let ok = False in
                if \<not> ok then 0
                else if float64_less bVal aVal then 1
                else if float64_less aVal bVal then - 1
                else 0)))"

text \<open>The first switch of \<open>evaluateCondition\<close>: the value of the field, \<open>None\<close> when
  the field is found nowhere.\<close>

definition fieldValueOf :: "string \<Rightarrow> RuleEvaluationContext \<Rightarrow> gvalue option" where
  "fieldValueOf field ctx =
     (if field = ''client_id'' then Some (GString (ctx_ClientID ctx))
      else if field = ''resource'' then Some (GString (ctx_Resource ctx))
      else if field = ''ip_address'' then Some (GString (ctx_IPAddress ctx))
      else if field = ''user_agent'' then Some (GString (ctx_UserAgent ctx))
      else if field = ''timestamp'' then Some (GTime (ctx_Timestamp ctx))
      else (case ctx_Metadata ctx field of
              Some val \<Rightarrow> Some (GString val)
            | None \<Rightarrow> ctx_RequestData ctx field))"

text \<open>The loops of the operators \<open>in\<close> and \<open>not_in\<close> over the candidates.\<close>

fun inValues :: "gvalue \<Rightarrow> gvalue list \<Rightarrow> error + bool" where
  "inValues fieldValue [] = Inr False"
| "inValues fieldValue (val # vals) =
     (case ifaceEq fieldValue val of
        Inl err \<Rightarrow> Inl err
      | Inr eq \<Rightarrow> if eq then Inr True else inValues fieldValue vals)"

fun notInValues :: "gvalue \<Rightarrow> gvalue list \<Rightarrow> error + bool" where
  "notInValues fieldValue [] = Inr True"
| "notInValues fieldValue (val # vals) =
     (case ifaceEq fieldValue val of
        Inl err \<Rightarrow> Inl err
      | Inr eq \<Rightarrow> if eq then Inr False else notInValues fieldValue vals)"

text \<open>The second switch of \<open>evaluateCondition\<close>, on the operator.\<close>

definition evaluateOperator :: "GoLib \<Rightarrow> string \<Rightarrow> gvalue \<Rightarrow> gvalue \<Rightarrow> error + bool" where
  "evaluateOperator lib operator fieldValue condValue =
     (if operator = ''equals'' then ifaceEq fieldValue condValue
      else if operator = ''not_equals'' then
        (case ifaceEq fieldValue condValue of Inl err \<Rightarrow> Inl err | Inr eq \<Rightarrow> Inr (\<not> eq))
      else if operator = ''contains'' then
        (case fieldValue of
           GString str \<Rightarrow>
             (case condValue of GString substr \<Rightarrow> Inr (containsString str substr) | _ \<Rightarrow> Inr False)
         | _ \<Rightarrow> Inr False)
      else if operator = ''starts_with'' then
        (case fieldValue of
           GString str \<Rightarrow>
             (case condValue of
                GString prefix \<Rightarrow>
                  Inr (length prefix \<le> length str \<and> take (length prefix) str = prefix)
              | _ \<Rightarrow> Inr False)
         | _ \<Rightarrow> Inr False)
      else if operator = ''ends_with'' then
        (case fieldValue of
           GString str \<Rightarrow>
             (case condValue of
                GString suffix \<Rightarrow>
                  Inr (length suffix \<le> length str \<and> drop (length str - length suffix) str = suffix)
              | _ \<Rightarrow> Inr False)
         | _ \<Rightarrow> Inr False)
      else if operator = ''in'' then
        (case condValue of GSlice values \<Rightarrow> inValues fieldValue values | _ \<Rightarrow> Inr False)
      else if operator = ''not_in'' then
        (case condValue of GSlice values \<Rightarrow> notInValues fieldValue values | _ \<Rightarrow> Inr False)
      else if operator = ''greater_than'' then Inr (0 <s compareNumbers lib fieldValue condValue)
      else if operator = ''less_than'' then Inr (compareNumbers lib fieldValue condValue <s 0)
      else if operator = ''greater_equal'' then Inr (0 \<le>s compareNumbers lib fieldValue condValue)
      else if operator = ''less_equal'' then Inr (compareNumbers lib fieldValue condValue \<le>s 0)
      else Inr False)"

definition evaluateCondition :: "GoLib \<Rightarrow> RuleCondition \<Rightarrow> RuleEvaluationContext \<Rightarrow> error + bool" where
  "evaluateCondition lib condition ctx =
     (case fieldValueOf (cond_Field condition) ctx of
        None \<Rightarrow> Inr False
      | Some fieldValue \<Rightarrow>
          evaluateOperator lib (cond_Operator condition) fieldValue (cond_Value condition))"

text \<open>The loop of \<open>EvaluateRule\<close> over the conditions, left at the first one that
  does not hold.\<close>

fun allConditions :: "GoLib \<Rightarrow> RuleCondition list \<Rightarrow> RuleEvaluationContext \<Rightarrow> error + bool" where
  "allConditions lib [] ctx = Inr True"
| "allConditions lib (condition # conditions) ctx =
     (case evaluateCondition lib condition ctx of
        Inl err \<Rightarrow> Inl err
      | Inr holds \<Rightarrow> if \<not> holds then Inr False else allConditions lib conditions ctx)"

definition EvaluateRule ::
  "GoLib \<Rightarrow> time \<Rightarrow> Rule \<Rightarrow> RuleEvaluationContext \<Rightarrow> error + RuleEvaluationResult" where
  "EvaluateRule lib now r ctx =
     (let result = \<lparr> res_RuleID = rule_ID r, res_RuleName = rule_Name r, res_Matched = False,
                     res_Actions = [], res_Metadata = Map.empty, res_EvaluatedAt = now \<rparr>
      in if \<not> rule_Enabled r then Inr result
         else
           (case allConditions lib (rule_Conditions r) ctx of
              Inl err \<Rightarrow> Inl err
            | Inr matched \<Rightarrow>
                Inr (if matched
                     then result\<lparr> res_Matched := matched, res_Actions := rule_Actions r \<rparr>
                     else result\<lparr> res_Matched := matched \<rparr>)))"

section \<open>Rule engine: repository, publisher and engine\<close>

text \<open>\<open>map[string]Rule\<close>, as an association list in the order of one iteration.\<close>

type_synonym RuleStore = "(string \<times> Rule) list"

definition GetActiveRules :: "RuleStore \<Rightarrow> Rule list" where
  "GetActiveRules r = filter rule_Enabled (map snd r)"

definition SaveRule :: "RuleStore \<Rightarrow> Rule \<Rightarrow> (error + unit) \<times> RuleStore" where
  "SaveRule r rule = (Inr (), AList.update (rule_ID rule) rule r)"

text \<open>The subscribers of the publisher: buffered channels of capacity 100.  A send to
  a full channel is skipped.\<close>

type_synonym SimpleEventPublisher = "RuleEvaluationResult list list"

definition PublishRuleEvaluated :: "SimpleEventPublisher \<Rightarrow> RuleEvaluationResult \<Rightarrow> SimpleEventPublisher" where
  "PublishRuleEvaluated p result = map (\<lambda>ch. if length ch < 100 then ch @ [result] else ch) p"

definition PublishRuleMatched :: "SimpleEventPublisher \<Rightarrow> RuleEvaluationResult \<Rightarrow> SimpleEventPublisher" where
  "PublishRuleMatched p result = map (\<lambda>ch. if length ch < 100 then ch @ [result] else ch) p"

record RuleEngine =
  re_ruleRepository :: RuleStore
  re_eventPublisher :: SimpleEventPublisher

text \<open>
  \<open>sort.Slice\<close> orders the rules by descending priority and is not stable.  The rules
  it receives come in the order of a map iteration, which is arbitrary already, so a
  stable sort of an arbitrarily ordered list produces every order \<open>sort.Slice\<close> can.
\<close>

definition sortByPriority :: "Rule list \<Rightarrow> Rule list" where
  "sortByPriority rules = sort_key (\<lambda>rule. - sint (rule_Priority rule)) rules"

text \<open>The loop of \<open>EvaluateRules\<close> over the sorted rules.\<close>

fun evaluateEach ::
  "GoLib \<Rightarrow> time \<Rightarrow> RuleEvaluationContext \<Rightarrow> Rule list \<Rightarrow> RuleEvaluationResult list
     \<Rightarrow> SimpleEventPublisher \<Rightarrow> (error + RuleEvaluationResult list) \<times> SimpleEventPublisher" where
  "evaluateEach lib now evalCtx [] results p = (Inr results, p)"
| "evaluateEach lib now evalCtx (rule # rules) results p =
     (case EvaluateRule lib now rule evalCtx of
        Inl err \<Rightarrow> (Inl err, p)
      | Inr result \<Rightarrow>
          (let p1 = PublishRuleEvaluated p result;
               p2 = (if res_Matched result then PublishRuleMatched p1 result else p1)
           in evaluateEach lib now evalCtx rules (results @ [result]) p2))"

definition EvaluateRules ::
  "GoLib \<Rightarrow> time \<Rightarrow> RuleEngine \<Rightarrow> RuleEvaluationContext
     \<Rightarrow> (error + RuleEvaluationResult list) \<times> RuleEngine" where
  "EvaluateRules lib now e evalCtx =
     (let rules = sortByPriority (GetActiveRules (re_ruleRepository e)) in
      case evaluateEach lib now evalCtx rules [] (re_eventPublisher e) of
        (res, p) \<Rightarrow> (res, e\<lparr> re_eventPublisher := p \<rparr>))"

fun hasBlockingType :: "RuleAction list \<Rightarrow> bool" where
  "hasBlockingType [] = False"
| "hasBlockingType (action # actions) =
     (if act_Type action = ''deny'' \<or> act_Type action = ''block'' then True
      else hasBlockingType actions)"

fun HasBlockingAction :: "RuleEvaluationResult list \<Rightarrow> bool" where
  "HasBlockingAction [] = False"
| "HasBlockingAction (result # results) =
     (if res_Matched result \<and> hasBlockingType (res_Actions result) then True
      else HasBlockingAction results)"

fun GetRateLimitActions :: "RuleEvaluationResult list \<Rightarrow> RuleAction list" where
  "GetRateLimitActions [] = []"
| "GetRateLimitActions (result # results) =
     (if res_Matched result
      then filter (\<lambda>action. act_Type action = ''rate_limit'') (res_Actions result)
             @ GetRateLimitActions results
      else GetRateLimitActions results)"

section \<open>Integrated service\<close>

record IntegratedRateLimiterService =
  rateLimiterService :: RateLimiter
  ruleEngine :: RuleEngine

record RequestCheckResult =
  cr_Allowed :: bool
  cr_Reason :: string
  cr_RuleResults :: "RuleEvaluationResult list"
  cr_RateLimitStatus :: "RateLimitStatus option"
  cr_BlockingRuleID :: string
  cr_AppliedActions :: "RuleAction list"

fun getFirstBlockingRuleID :: "RuleEvaluationResult list \<Rightarrow> string" where
  "getFirstBlockingRuleID [] = ''''"
| "getFirstBlockingRuleID (result # results) =
     (if res_Matched result \<and> hasBlockingType (res_Actions result) then res_RuleID result
      else getFirstBlockingRuleID results)"

text \<open>The inner loop of \<open>determineReason\<close>: the first action that is \<open>allow\<close> or
  \<open>throttle\<close> decides.\<close>

fun reasonOfActions :: "RuleAction list \<Rightarrow> string option" where
  "reasonOfActions [] = None"
| "reasonOfActions (action # actions) =
     (if act_Type action = ''allow'' then Some ''allowed by rule''
      else if act_Type action = ''throttle'' then Some ''throttled by rule''
      else reasonOfActions actions)"

fun reasonOfResults :: "RuleEvaluationResult list \<Rightarrow> string" where
  "reasonOfResults [] = ''allowed''"
| "reasonOfResults (result # results) =
     (if res_Matched result
      then (case reasonOfActions (res_Actions result) of
              Some reason \<Rightarrow> reason
            | None \<Rightarrow> reasonOfResults results)
      else reasonOfResults results)"

definition determineReason :: "RateLimitStatus \<Rightarrow> RuleEvaluationResult list \<Rightarrow> string" where
  "determineReason rateLimitStatus ruleResults =
     (if \<not> q_IsAllowed rateLimitStatus then ''rate limited'' else reasonOfResults ruleResults)"

text \<open>
  The body of the loop of \<open>applyDynamicRateLimiting\<close> up to the call of \<open>CreateRule\<close>:
  the limit, window and algorithm read from the parameters of one action, \<open>None\<close>
  where the loop goes on to the next action without creating a rule.
\<close>

definition dynamicRuleOf :: "GoLib \<Rightarrow> RuleAction \<Rightarrow> (go_int \<times> duration \<times> string) option" where
  "dynamicRuleOf lib action =
     (if act_Type action = ''rate_limit'' then
        (case act_Parameters action ''limit'' of
           None \<Rightarrow> None
         | Some limit \<Rightarrow>
             (case act_Parameters action ''window'' of
                None \<Rightarrow> None
              | Some window \<Rightarrow>
                  (let limitInt =
                         (case limit of
                            GInt v \<Rightarrow> v
                          | GFloat64 v \<Rightarrow> int_of_float64 lib v
                          | GString v \<Rightarrow> (case Atoi lib v of Some parsed \<Rightarrow> parsed | None \<Rightarrow> 0)
                          | _ \<Rightarrow> 0);
                       windowDuration =
                         (case window of
                            GString v \<Rightarrow> (case ParseDuration lib v of Some parsed \<Rightarrow> parsed | None \<Rightarrow> 0)
                          | GInt v \<Rightarrow> v * Second
                          | GFloat64 v \<Rightarrow> int_of_float64 lib v * Second
                          | _ \<Rightarrow> 0);
                       algorithmStr =
                         (case act_Parameters action ''algorithm'' of
                            None \<Rightarrow> ''sliding_window''
                          | Some alg \<Rightarrow> (case alg of GString a \<Rightarrow> a | _ \<Rightarrow> []))
                   in if 0 <s limitInt \<and> 0 <s windowDuration
                      then Some (limitInt, windowDuration, algorithmStr)
                      else None)))
      else None)"

fun applyDynamicRateLimiting ::
  "GoLib \<Rightarrow> time \<Rightarrow> ApplyClock \<Rightarrow> RateLimiter \<Rightarrow> RuleAction list \<Rightarrow> string
     \<Rightarrow> (error + unit) \<times> RateLimiter" where
  "applyDynamicRateLimiting lib now clk s [] resource = (Inr (), s)"
| "applyDynamicRateLimiting lib now clk s (action # actions) resource =
     (case dynamicRuleOf lib action of
        None \<Rightarrow> applyDynamicRateLimiting lib now clk s actions resource
      | Some (limitInt, windowDuration, algorithmStr) \<Rightarrow>
          (case CreateRule now clk s resource limitInt windowDuration algorithmStr of
             (Inl err, s1) \<Rightarrow> (Inl (wrapErr ''failed to create dynamic rate limit rule'' err), s1)
           | (Inr u, s1) \<Rightarrow> applyDynamicRateLimiting lib now clk s1 actions resource))"

text \<open>
  \<open>stamp\<close> is the value that \<open>time.Now()\<close> returns for the \<open>Timestamp\<close> of the evaluation
  context, \<open>now\<close> the reading of the rule engine and of the service, \<open>clk\<close> the readings
  of \<open>handleApplyRateLimit\<close>.
\<close>

definition CheckRequestWithRules ::
  "GoLib \<Rightarrow> GoTime \<Rightarrow> time \<Rightarrow> ApplyClock \<Rightarrow> IntegratedRateLimiterService
     \<Rightarrow> string \<Rightarrow> string \<Rightarrow> string \<Rightarrow> string
     \<Rightarrow> (string \<rightharpoonup> string) \<Rightarrow> (string \<rightharpoonup> gvalue)
     \<Rightarrow> (error + RequestCheckResult) \<times> IntegratedRateLimiterService" where
  "CheckRequestWithRules lib stamp now clk s clientID resource ipAddress userAgent metadata requestData =
     (let evalCtx = \<lparr> ctx_ClientID = clientID, ctx_Resource = resource, ctx_IPAddress = ipAddress,
                      ctx_UserAgent = userAgent, ctx_Timestamp = stamp, ctx_Metadata = metadata,
                      ctx_RequestData = requestData \<rparr>
      in case EvaluateRules lib now (ruleEngine s) evalCtx of
           (Inl err, e1) \<Rightarrow> (Inl (wrapErr ''failed to evaluate rules'' err), s\<lparr> ruleEngine := e1 \<rparr>)
         | (Inr ruleResults, e1) \<Rightarrow>
             if HasBlockingAction ruleResults
             then (Inr \<lparr> cr_Allowed = False, cr_Reason = ''blocked by rule'',
                         cr_RuleResults = ruleResults, cr_RateLimitStatus = None,
                         cr_BlockingRuleID = getFirstBlockingRuleID ruleResults,
                         cr_AppliedActions = [] \<rparr>,
                   s\<lparr> ruleEngine := e1 \<rparr>)
             else
               (let rateLimitActions = GetRateLimitActions ruleResults in
                case (if rateLimitActions \<noteq> []
                      then applyDynamicRateLimiting lib now clk (rateLimiterService s) rateLimitActions resource
                      else (Inr (), rateLimiterService s)) of
                  (Inl err, rl1) \<Rightarrow>
                    (Inl (wrapErr ''failed to apply dynamic rate limiting'' err),
                     s\<lparr> ruleEngine := e1, rateLimiterService := rl1 \<rparr>)
                | (Inr u, rl1) \<Rightarrow>
                    (case CheckRateLimit now clk rl1 clientID resource ipAddress userAgent of
                       (Inl err, rl2) \<Rightarrow>
                         (Inl (wrapErr ''failed to check rate limit'' err),
                          s\<lparr> ruleEngine := e1, rateLimiterService := rl2 \<rparr>)
                     | (Inr rateLimitStatus, rl2) \<Rightarrow>
                         (Inr \<lparr> cr_Allowed = q_IsAllowed rateLimitStatus,
                                cr_Reason = (if \<not> q_IsAllowed rateLimitStatus then ''rate limited''
                                             else determineReason rateLimitStatus ruleResults),
                                cr_RuleResults = ruleResults,
                                cr_RateLimitStatus = Some rateLimitStatus,
                                cr_BlockingRuleID = '''',
                                cr_AppliedActions = [] \<rparr>,
                          s\<lparr> ruleEngine := e1, rateLimiterService := rl2 \<rparr>))))"

section \<open>Example data\<close>

text \<open>A clock reading seven seconds into a minute, and the instants one and two seconds
  later.\<close>

definition t0 :: time where
  "t0 = 63000000007000000000"

definition t1 :: time where
  "t1 = 63000000008000000000"

definition t2 :: time where
  "t2 = 63000000009000000000"

definition Minute :: duration where
  "Minute = 60000000000"

text \<open>The clock of a run of \<open>handleApplyRateLimit\<close> whose readings are all the same.\<close>

definition steady :: "time \<Rightarrow> ApplyClock" where
  "steady t = \<lparr> replayAt = (\<lambda>k. t), canMakeAt = t, idAt = t, timeAt = t,
               windowStartAt = t, windowEndAt = t \<rparr>"

text \<open>The clock of a run in the last nanoseconds of the minute that \<open>t0\<close> lies in: the
  reading for \<open>WindowStart\<close> is the last nanosecond of that minute, the reading for
  \<open>WindowEnd\<close> the first of the next.\<close>

definition straddling :: ApplyClock where
  "straddling = \<lparr> replayAt = (\<lambda>k. 63000000059999999990 + int k),
                   canMakeAt = 63000000059999999996,
                   idAt = 63000000059999999997,
                   timeAt = 63000000059999999998,
                   windowStartAt = 63000000059999999999,
                   windowEndAt = 63000000060000000000 \<rparr>"

definition apiRule :: RateLimitRule where
  "apiRule = \<lparr> rl_ID = ''rule-1'', rl_Resource = ''api'', rl_Limit = 100, rl_Window = Minute,
               rl_Algorithm = ''sliding_window'', rl_CreatedAt = 0, rl_UpdatedAt = 0 \<rparr>"

definition zeroRule :: RateLimitRule where
  "zeroRule = \<lparr> rl_ID = ''rule-0'', rl_Resource = ''api'', rl_Limit = 0, rl_Window = Minute,
                rl_Algorithm = ''fixed_window'', rl_CreatedAt = 0, rl_UpdatedAt = 0 \<rparr>"

text \<open>A rate limiter with one rule, no events and an empty read model.\<close>

definition limiterWith :: "RateLimitRule \<Rightarrow> RateLimiter" where
  "limiterWith rule = \<lparr> eventStore = NewInMemoryEventStore,
                          ruleRepository = [(rl_ID rule, rule)],
                          readModel = NewInMemoryReadModel \<rparr>"

definition Minutes15 :: duration where
  "Minutes15 = 900000000000"

definition loginRule :: RateLimitRule where
  "loginRule = \<lparr> rl_ID = ''rule-2'', rl_Resource = ''login'', rl_Limit = 5, rl_Window = Minutes15,
                 rl_Algorithm = ''fixed_window'', rl_CreatedAt = 0, rl_UpdatedAt = 0 \<rparr>"

text \<open>The event that the first request of client \<open>u\<close> for \<open>api\<close> appends at \<open>t0\<close>
  under a one-minute rule with the given limit, and the rate limiter that holds it.\<close>

definition firstApplied :: "go_int \<Rightarrow> Event" where
  "firstApplied limit = EApplied
           \<lparr> ev_ID = ''applied-864403207000000000'',
             ev_Type = ''RateLimitApplied'',
             ev_Time = 63000000007000000000,
             ev_AggrID = ''u:api'',
             ev_Version = 1,
             ap_ClientID = ''u'',
             ap_Resource = ''api'',
             ap_WindowStart = 63000000000000000000,
             ap_WindowEnd = 63000000060000000000,
             ap_RequestCount = 1,
             ap_Limit = limit,
             ap_RemainingQuota = limit - 1 \<rparr>"

definition afterFirst :: "RateLimitRule \<Rightarrow> RateLimiter" where
  "afterFirst rule = (limiterWith rule)\<lparr> eventStore := [''u:api'' \<mapsto> [firstApplied (rl_Limit rule)]] \<rparr>"

text \<open>A denied status as the projection of a \<open>RateLimitExceeded\<close> event writes it, and
  a rate limiter whose read model holds it.\<close>

definition blockedStatus :: RateLimitStatus where
  "blockedStatus = \<lparr> q_ClientID = ''u'', q_Resource = ''api'', q_IsAllowed = False,
                     q_RequestCount = 101, q_Limit = 100, q_RemainingQuota = 0,
                     q_WindowStart = 63000000000000000000, q_WindowEnd = 63000000060000000000,
                     q_ResetTime = 63000000060000000000, q_IsBlocked = True,
                     q_BlockedUntil = 63000000060000000000, q_RetryAfter = 52 \<rparr>"

definition blockedLimiter :: RateLimiter where
  "blockedLimiter = (limiterWith apiRule)
      \<lparr> readModel := \<lparr> statuses = [''u:api'' \<mapsto> blockedStatus], history = Map.empty \<rparr> \<rparr>"

text \<open>A history record at a given instant, and a read model with three of them.\<close>

definition historyEventAt :: "time \<Rightarrow> RateLimitEvent" where
  "historyEventAt t = \<lparr> h_EventID = ''applied-1'', h_EventType = ''RateLimitApplied'',
                        h_ClientID = ''u'', h_Resource = ''api'', h_Timestamp = t,
                        h_RequestCount = 1, h_Limit = 100, h_IsBlocked = False,
                        h_Metadata = Map.empty \<rparr>"

definition historyModel :: InMemoryReadModel where
  "historyModel = \<lparr> statuses = Map.empty,
                    history = [''u:api'' \<mapsto> [historyEventAt t0, historyEventAt t1, historyEventAt t2]] \<rparr>"

text \<open>An instance of the library parameters for the evaluations at concrete inputs.
  None of those evaluations reaches a conversion or a parser.\<close>

definition exampleLib :: GoLib where
  "exampleLib = \<lparr> float64_of_int = (\<lambda>v. 0), float64_of_float32 = (\<lambda>v. 0),
                   int_of_float64 = (\<lambda>v. 0), Atoi = (\<lambda>s. None), ParseDuration = (\<lambda>s. None) \<rparr>"

text \<open>The three security rules that \<open>setupDefaultConfiguration\<close> creates, and an
  integrated service that holds them together with the rate limiter \<open>limiterWith apiRule\<close>.\<close>

definition suspiciousUserAgentRule :: Rule where
  "suspiciousUserAgentRule =
     \<lparr> rule_ID = ''block-suspicious-agents'', rule_Name = ''Block Suspicious User Agents'',
       rule_Type = ''blacklist'', rule_Description = ''Block requests from suspicious user agents'',
       rule_Priority = 200, rule_Enabled = True,
       rule_Conditions = [\<lparr> cond_Field = ''user_agent'', cond_Operator = ''contains'',
                             cond_Value = GString ''bot'' \<rparr>],
       rule_Actions = [\<lparr> act_Type = ''deny'',
                          act_Parameters = [''reason'' \<mapsto> GString ''suspicious user agent''] \<rparr>],
       rule_CreatedAt = 63000000000000000000, rule_UpdatedAt = 63000000000000000000,
       rule_CreatedBy = [], rule_Tags = [''security'', ''user-agent''] \<rparr>"

definition aggressiveLoginRule :: Rule where
  "aggressiveLoginRule =
     \<lparr> rule_ID = ''aggressive-login-rate-limit'', rule_Name = ''Aggressive Login Rate Limiting'',
       rule_Type = ''rate_limit'',
       rule_Description = ''Apply stricter rate limiting for login endpoints'',
       rule_Priority = 150, rule_Enabled = True,
       rule_Conditions = [\<lparr> cond_Field = ''resource'', cond_Operator = ''equals'',
                             cond_Value = GString ''login'' \<rparr>],
       rule_Actions = [\<lparr> act_Type = ''rate_limit'',
                          act_Parameters = [''limit'' \<mapsto> GInt 3, ''window'' \<mapsto> GString ''5m'',
                                            ''algorithm'' \<mapsto> GString ''fixed_window''] \<rparr>],
       rule_CreatedAt = 63000000000000000000, rule_UpdatedAt = 63000000000000000000,
       rule_CreatedBy = [], rule_Tags = [''security'', ''login''] \<rparr>"

definition whitelistRule :: Rule where
  "whitelistRule =
     \<lparr> rule_ID = ''whitelist-internal-ips'', rule_Name = ''Whitelist Internal IPs'',
       rule_Type = ''whitelist'', rule_Description = ''Allow all requests from internal IP ranges'',
       rule_Priority = 300, rule_Enabled = True,
       rule_Conditions = [\<lparr> cond_Field = ''ip_address'', cond_Operator = ''starts_with'',
                             cond_Value = GString ''192.168.'' \<rparr>],
       rule_Actions = [\<lparr> act_Type = ''allow'',
                          act_Parameters = [''reason'' \<mapsto> GString ''internal IP''] \<rparr>],
       rule_CreatedAt = 63000000000000000000, rule_UpdatedAt = 63000000000000000000,
       rule_CreatedBy = [], rule_Tags = [''security'', ''whitelist''] \<rparr>"

definition defaultService :: IntegratedRateLimiterService where
  "defaultService =
     \<lparr> rateLimiterService = limiterWith apiRule,
       ruleEngine = \<lparr> re_ruleRepository =
                         [(''block-suspicious-agents'', suspiciousUserAgentRule),
                          (''aggressive-login-rate-limit'', aggressiveLoginRule),
                          (''whitelist-internal-ips'', whitelistRule)],
                      re_eventPublisher = [] \<rparr> \<rparr>"

text \<open>The evaluation context of a request of client \<open>u\<close> for \<open>api\<close>, from an internal
  address, with a user agent that contains \<open>bot\<close>.\<close>

text \<open>The instant \<open>t0\<close> as a \<open>time.Time\<close> with no monotonic reading, in UTC.\<close>

definition exampleStamp :: GoTime where
  "exampleStamp = \<lparr> wall = 0, ext = 63000000007, loc = 0 \<rparr>"

definition botContext :: RuleEvaluationContext where
  "botContext = \<lparr> ctx_ClientID = ''u'', ctx_Resource = ''api'', ctx_IPAddress = ''192.168.1.5'',
                  ctx_UserAgent = ''bot-tester/1.0'', ctx_Timestamp = exampleStamp,
                  ctx_Metadata = Map.empty, ctx_RequestData = Map.empty \<rparr>"

text \<open>The results of the three rules on that context, in the order of evaluation.\<close>

definition botResults :: "RuleEvaluationResult list" where
  "botResults =
     [\<lparr> res_RuleID = ''whitelist-internal-ips'', res_RuleName = ''Whitelist Internal IPs'',
        res_Matched = True, res_Actions = rule_Actions whitelistRule,
        res_Metadata = Map.empty, res_EvaluatedAt = t0 \<rparr>,
      \<lparr> res_RuleID = ''block-suspicious-agents'', res_RuleName = ''Block Suspicious User Agents'',
        res_Matched = True, res_Actions = rule_Actions suspiciousUserAgentRule,
        res_Metadata = Map.empty, res_EvaluatedAt = t0 \<rparr>,
      \<lparr> res_RuleID = ''aggressive-login-rate-limit'', res_RuleName = ''Aggressive Login Rate Limiting'',
        res_Matched = False, res_Actions = [],
        res_Metadata = Map.empty, res_EvaluatedAt = t0 \<rparr>]"

section \<open>Properties of the aggregate and the event store\<close>

lemma applyEvents_Version:
  "agg_Version (applyEvents a tes) = agg_Version a + of_nat (length tes)"
  by (induction a tes rule: applyEvents.induct) (simp_all add: ApplyEvent_def)

lemma applyEvents_Events:
  "agg_Events (applyEvents a tes) = agg_Events a @ map snd tes"
  by (induction a tes rule: applyEvents.induct) (simp_all add: ApplyEvent_def)

lemma rehydrate_Version:
  "agg_Version (rehydrate readings clientID resource events) = of_nat (length events)"
  by (simp add: rehydrate_def applyEvents_Version NewRateLimitAggregate_def)

lemma sint_of_nat_small:
  assumes "n < 2 ^ 63"
  shows "sint (of_nat n :: go_int) = int n"
proof -
  have "int n < 2 ^ 63"
    using assms by (metis of_nat_less_iff of_nat_numeral of_nat_power)
  moreover have "- (2 ^ 63) \<le> int n"
    by (smt (verit) zero_less_power of_nat_0_le_iff)
  ultimately have "signed_take_bit 63 (int n) = int n"
    by (rule signed_take_bit_int_eq_self[rotated])
  then show ?thesis
    by (simp add: signed_of_nat)
qed

text \<open>
  Claim C5.  Whatever events are applied with \<open>ApplyEvent\<close> to the aggregate made by
  \<open>NewRateLimitAggregate\<close>, and at whatever clock readings, the aggregate's \<open>Version\<close>
  afterwards is the number of events applied: it is \<open>len\<close> of the sequence as a Go
  \<open>int\<close>, the aggregate's own \<open>Events\<close> slice holds exactly the applied events, and
  read as a signed number the version is the count itself for every sequence a Go slice
  can hold (fewer than \<open>2^63\<close> events).
\<close>

theorem version_equals_event_count:
  "agg_Version (applyEvents (NewRateLimitAggregate clientID resource) tes) = of_nat (length tes)
   \<and> agg_Events (applyEvents (NewRateLimitAggregate clientID resource) tes) = map snd tes
   \<and> (length tes < 2 ^ 63 \<longrightarrow>
        sint (agg_Version (applyEvents (NewRateLimitAggregate clientID resource) tes)) = int (length tes))"
  by (simp add: applyEvents_Version applyEvents_Events NewRateLimitAggregate_def sint_of_nat_small)

theorem version_equals_event_count_witness:
  "length [(5 :: time, EWindowReset \<lparr> ev_ID = ''reset-5'', ev_Type = ''RateLimitWindowReset'', ev_Time = 5,
              ev_AggrID = ''u:api'', ev_Version = 1, rs_ClientID = ''u'', rs_Resource = ''api'',
              rs_WindowStart = 5 \<rparr>),
           (9, EExceeded \<lparr> ev_ID = ''exceeded-9'', ev_Type = ''RateLimitExceeded'', ev_Time = 9,
              ev_AggrID = ''u:api'', ev_Version = 2, ex_ClientID = ''u'', ex_Resource = ''api'',
              ex_RequestCount = 1, ex_Limit = 3, ex_WindowStart = 5, ex_WindowEnd = 0,
              ex_BlockedUntil = 0 \<rparr>)] < 2 ^ 63
   \<and> sint (agg_Version (applyEvents (NewRateLimitAggregate ''u'' ''api'')
         [(5, EWindowReset \<lparr> ev_ID = ''reset-5'', ev_Type = ''RateLimitWindowReset'', ev_Time = 5,
              ev_AggrID = ''u:api'', ev_Version = 1, rs_ClientID = ''u'', rs_Resource = ''api'',
              rs_WindowStart = 5 \<rparr>),
          (9, EExceeded \<lparr> ev_ID = ''exceeded-9'', ev_Type = ''RateLimitExceeded'', ev_Time = 9,
              ev_AggrID = ''u:api'', ev_Version = 2, ex_ClientID = ''u'', ex_Resource = ''api'',
              ex_RequestCount = 1, ex_Limit = 3, ex_WindowStart = 5, ex_WindowEnd = 0,
              ex_BlockedUntil = 0 \<rparr>)])) = 2"
  using version_equals_event_count [of "''u''" "''api''"
      "[(5, EWindowReset \<lparr> ev_ID = ''reset-5'', ev_Type = ''RateLimitWindowReset'', ev_Time = 5,
              ev_AggrID = ''u:api'', ev_Version = 1, rs_ClientID = ''u'', rs_Resource = ''api'',
              rs_WindowStart = 5 \<rparr>),
        (9, EExceeded \<lparr> ev_ID = ''exceeded-9'', ev_Type = ''RateLimitExceeded'', ev_Time = 9,
              ev_AggrID = ''u:api'', ev_Version = 2, ex_ClientID = ''u'', ex_Resource = ''api'',
              ex_RequestCount = 1, ex_Limit = 3, ex_WindowStart = 5, ex_WindowEnd = 0,
              ex_BlockedUntil = 0 \<rparr>)]"]
  by simp

lemma of_nat_eq_iff_sint:
  assumes "n < 2 ^ 63"
  shows "of_nat n = (v :: go_int) \<longleftrightarrow> int n = sint v"
proof
  assume "of_nat n = v"
  then show "int n = sint v"
    using sint_of_nat_small [OF assms] by simp
next
  assume "int n = sint v"
  then have "(of_int (int n) :: go_int) = of_int (sint v)"
    by simp
  then show "of_nat n = v"
    by simp
qed

text \<open>
  Claim C2.  \<open>SaveEvents\<close> returns the concurrency-conflict error exactly when the number
  of events stored for the aggregate, \<open>len(existingEvents)\<close>, differs from
  \<open>expectedVersion\<close>, and succeeds exactly when the two agree; for every stream a Go
  slice can hold this is the comparison of the count with \<open>expectedVersion\<close> read as a
  signed number.  On the conflict the store is returned as it was; on success the
  aggregate's sequence is the old one followed by the new events in order, and the
  sequences of all other aggregates are as before.
\<close>

theorem SaveEvents_conflict_iff:
  "(fst (SaveEvents s aggregateID events expectedVersion)
        = Inl (ConcurrencyConflict expectedVersion (of_nat (length (stored s aggregateID))))
      \<longleftrightarrow> of_nat (length (stored s aggregateID)) \<noteq> expectedVersion)
   \<and> (fst (SaveEvents s aggregateID events expectedVersion) = Inr ()
      \<longleftrightarrow> of_nat (length (stored s aggregateID)) = expectedVersion)
   \<and> (length (stored s aggregateID) < 2 ^ 63 \<longrightarrow>
        (of_nat (length (stored s aggregateID)) \<noteq> expectedVersion
           \<longleftrightarrow> int (length (stored s aggregateID)) \<noteq> sint expectedVersion))
   \<and> (of_nat (length (stored s aggregateID)) \<noteq> expectedVersion \<longrightarrow>
        snd (SaveEvents s aggregateID events expectedVersion) = s)
   \<and> (of_nat (length (stored s aggregateID)) = expectedVersion \<longrightarrow>
        stored (snd (SaveEvents s aggregateID events expectedVersion)) aggregateID
            = stored s aggregateID @ events
        \<and> (\<forall>other. other \<noteq> aggregateID \<longrightarrow>
              snd (SaveEvents s aggregateID events expectedVersion) other = s other))"
  using of_nat_eq_iff_sint [of "length (stored s aggregateID)" expectedVersion]
  by (simp add: SaveEvents_def Let_def stored_def)

section \<open>The apply command\<close>

lemma NewRateLimitAggregate_Version:
  "agg_Version (NewRateLimitAggregate clientID resource) = 0"
  by (simp add: NewRateLimitAggregate_def)

text \<open>With a rule for the resource, the handler appends exactly one event: the
  version it expects is the length of the stream it has just read.\<close>

lemma handleApplyRateLimit_saves:
  assumes "GetByResource (ruleRepository h) resource = rule # others"
  shows "handleApplyRateLimit clk h clientID resource =
     (let aggregateID = clientID @ '':'' @ resource;
          events = stored (eventStore h) aggregateID;
          aggregate = rehydrate (replayAt clk) clientID resource events;
          newEvent =
               (if CanMakeRequest (canMakeAt clk) aggregate rule
                then EApplied
                       \<lparr> ev_ID = ''applied-'' @ formatInt (UnixNano (idAt clk)),
                         ev_Type = ''RateLimitApplied'',
                         ev_Time = timeAt clk,
                         ev_AggrID = aggregateID,
                         ev_Version = of_nat (length events) + 1,
                         ap_ClientID = clientID,
                         ap_Resource = resource,
                         ap_WindowStart = Truncate (windowStartAt clk) (rl_Window rule),
                         ap_WindowEnd = Add (Truncate (windowEndAt clk) (rl_Window rule)) (rl_Window rule),
                         ap_RequestCount = st_RequestCount (agg_State aggregate) + 1,
                         ap_Limit = rl_Limit rule,
                         ap_RemainingQuota = rl_Limit rule - (st_RequestCount (agg_State aggregate) + 1) \<rparr>
                else EExceeded
                       \<lparr> ev_ID = ''exceeded-'' @ formatInt (UnixNano (idAt clk)),
                         ev_Type = ''RateLimitExceeded'',
                         ev_Time = timeAt clk,
                         ev_AggrID = aggregateID,
                         ev_Version = of_nat (length events) + 1,
                         ex_ClientID = clientID,
                         ex_Resource = resource,
                         ex_RequestCount = st_RequestCount (agg_State aggregate) + 1,
                         ex_Limit = rl_Limit rule,
                         ex_WindowStart = st_WindowStart (agg_State aggregate),
                         ex_WindowEnd = st_WindowEnd (agg_State aggregate),
                         ex_BlockedUntil = st_WindowEnd (agg_State aggregate) \<rparr>)
      in (Inr (), h\<lparr> eventStore := (eventStore h)(aggregateID \<mapsto> events @ [newEvent]) \<rparr>))"
  using assms
  by (simp add: handleApplyRateLimit_def Let_def GetEvents_def SaveEvents_def rehydrate_Version)

lemma CanMakeRequest_iff:
  "CanMakeRequest now a rule \<longleftrightarrow>
     \<not> ((st_IsBlocked (agg_State a) \<and> now < st_BlockedUntil (agg_State a))
        \<or> (now \<le> st_WindowEnd (agg_State a) \<and> st_RemainingQuota (agg_State a) \<le>s 0))"
  by (auto simp add: CanMakeRequest_def word_sless_alt word_sle_eq)

text \<open>
  The admitted request, reading by reading.  When the rebuilt aggregate satisfies
  \<open>CanMakeRequest\<close> under the first rule of the resource, the command succeeds and
  appends one \<open>RateLimitApplied\<close> event; its request count is the replayed count plus
  one and its remaining quota the rule's limit minus that; its window starts at the
  reading taken for \<open>WindowStart\<close>, truncated to the rule's window, and ends one window
  after the truncation of the reading taken for \<open>WindowEnd\<close>.  The end is the start
  plus the window when the two readings truncate to the same instant, as they do when
  they are equal.
\<close>

lemma applied_event_fields:
  assumes "GetByResource (ruleRepository h) resource = rule # others"
      and "aggregate = rehydrate (replayAt clk) clientID resource
                         (GetEvents (eventStore h) (clientID @ '':'' @ resource))"
      and "CanMakeRequest (canMakeAt clk) aggregate rule"
  shows "fst (handleApplyRateLimit clk h clientID resource) = Inr ()
     \<and> GetEvents (eventStore (snd (handleApplyRateLimit clk h clientID resource))) (clientID @ '':'' @ resource)
        = GetEvents (eventStore h) (clientID @ '':'' @ resource) @
          [EApplied
             \<lparr> ev_ID = ''applied-'' @ formatInt (UnixNano (idAt clk)),
               ev_Type = ''RateLimitApplied'',
               ev_Time = timeAt clk,
               ev_AggrID = clientID @ '':'' @ resource,
               ev_Version = agg_Version aggregate + 1,
               ap_ClientID = clientID,
               ap_Resource = resource,
               ap_WindowStart = Truncate (windowStartAt clk) (rl_Window rule),
               ap_WindowEnd = Truncate (windowEndAt clk) (rl_Window rule) + sint (rl_Window rule),
               ap_RequestCount = st_RequestCount (agg_State aggregate) + 1,
               ap_Limit = rl_Limit rule,
               ap_RemainingQuota = rl_Limit rule - (st_RequestCount (agg_State aggregate) + 1) \<rparr>]"
  using assms(2,3)
  by (simp add: handleApplyRateLimit_saves[OF assms(1)] Let_def GetEvents_def stored_def Add_def
        rehydrate_Version)

lemma applied_event_fields_one_reading:
  assumes "GetByResource (ruleRepository h) resource = rule # others"
      and "aggregate = rehydrate (replayAt clk) clientID resource
                         (GetEvents (eventStore h) (clientID @ '':'' @ resource))"
      and "CanMakeRequest (canMakeAt clk) aggregate rule"
      and "windowEndAt clk = windowStartAt clk"
  shows "GetEvents (eventStore (snd (handleApplyRateLimit clk h clientID resource))) (clientID @ '':'' @ resource)
        = GetEvents (eventStore h) (clientID @ '':'' @ resource) @
          [EApplied
             \<lparr> ev_ID = ''applied-'' @ formatInt (UnixNano (idAt clk)),
               ev_Type = ''RateLimitApplied'',
               ev_Time = timeAt clk,
               ev_AggrID = clientID @ '':'' @ resource,
               ev_Version = agg_Version aggregate + 1,
               ap_ClientID = clientID,
               ap_Resource = resource,
               ap_WindowStart = Truncate (windowStartAt clk) (rl_Window rule),
               ap_WindowEnd = Truncate (windowStartAt clk) (rl_Window rule) + sint (rl_Window rule),
               ap_RequestCount = st_RequestCount (agg_State aggregate) + 1,
               ap_Limit = rl_Limit rule,
               ap_RemainingQuota = rl_Limit rule - (st_RequestCount (agg_State aggregate) + 1) \<rparr>]"
  using applied_event_fields [OF assms(1,2,3)] assms(4) by simp

text \<open>
  Claim C3, as the code has it.  The decision of \<open>handleApplyRateLimit\<close> does not read
  the rule's limit.  Under a rule with limit 0 the command is denied, with one
  \<open>RateLimitExceeded\<close> event and no \<open>RateLimitApplied\<close> event, in every prior state in
  which the aggregate is blocked until after \<open>now\<close>, or in which \<open>now\<close> is not after the
  end of the window and no quota remains; \<open>now\<close> is the reading of \<open>CanMakeRequest\<close>.  In every other prior state, the fresh
  aggregate among them, it appends a \<open>RateLimitApplied\<close> event whose remaining quota is
  minus the new request count.
\<close>

theorem zero_limit_decision:
  assumes "GetByResource (ruleRepository h) resource = rule # others"
      and "rl_Limit rule = 0"
      and "aggregate = rehydrate (replayAt clk) clientID resource
                         (GetEvents (eventStore h) (clientID @ '':'' @ resource))"
  shows "fst (handleApplyRateLimit clk h clientID resource) = Inr ()
     \<and> ((st_IsBlocked (agg_State aggregate) \<and> canMakeAt clk < st_BlockedUntil (agg_State aggregate))
          \<or> (canMakeAt clk \<le> st_WindowEnd (agg_State aggregate)
              \<and> st_RemainingQuota (agg_State aggregate) \<le>s 0)
        \<longrightarrow>
          GetEvents (eventStore (snd (handleApplyRateLimit clk h clientID resource))) (clientID @ '':'' @ resource)
          = GetEvents (eventStore h) (clientID @ '':'' @ resource) @
            [EExceeded
               \<lparr> ev_ID = ''exceeded-'' @ formatInt (UnixNano (idAt clk)),
                 ev_Type = ''RateLimitExceeded'',
                 ev_Time = timeAt clk,
                 ev_AggrID = clientID @ '':'' @ resource,
                 ev_Version = agg_Version aggregate + 1,
                 ex_ClientID = clientID,
                 ex_Resource = resource,
                 ex_RequestCount = st_RequestCount (agg_State aggregate) + 1,
                 ex_Limit = 0,
                 ex_WindowStart = st_WindowStart (agg_State aggregate),
                 ex_WindowEnd = st_WindowEnd (agg_State aggregate),
                 ex_BlockedUntil = st_WindowEnd (agg_State aggregate) \<rparr>])
     \<and> (\<not> ((st_IsBlocked (agg_State aggregate) \<and> canMakeAt clk < st_BlockedUntil (agg_State aggregate))
          \<or> (canMakeAt clk \<le> st_WindowEnd (agg_State aggregate)
              \<and> st_RemainingQuota (agg_State aggregate) \<le>s 0))
        \<longrightarrow>
          GetEvents (eventStore (snd (handleApplyRateLimit clk h clientID resource))) (clientID @ '':'' @ resource)
          = GetEvents (eventStore h) (clientID @ '':'' @ resource) @
            [EApplied
               \<lparr> ev_ID = ''applied-'' @ formatInt (UnixNano (idAt clk)),
                 ev_Type = ''RateLimitApplied'',
                 ev_Time = timeAt clk,
                 ev_AggrID = clientID @ '':'' @ resource,
                 ev_Version = agg_Version aggregate + 1,
                 ap_ClientID = clientID,
                 ap_Resource = resource,
                 ap_WindowStart = Truncate (windowStartAt clk) (rl_Window rule),
                 ap_WindowEnd = Add (Truncate (windowEndAt clk) (rl_Window rule)) (rl_Window rule),
                 ap_RequestCount = st_RequestCount (agg_State aggregate) + 1,
                 ap_Limit = 0,
                 ap_RemainingQuota = - (st_RequestCount (agg_State aggregate) + 1) \<rparr>])"
  using assms(2,3)
  by (simp add: handleApplyRateLimit_saves[OF assms(1)] Let_def GetEvents_def
        rehydrate_Version CanMakeRequest_iff
        stored_def[of "(eventStore h)(_ \<mapsto> _)"])

section \<open>The service and the read model\<close>

text \<open>
  Claim C9.  When the status that the read model holds for the pair is blocked and
  \<open>now\<close> is before its \<open>blockedUntil\<close>, \<open>CheckRateLimit\<close> returns that status and the
  whole state of the rate limiter, with the event store and so the aggregate's stream
  and counter, is as before: no command was handled.
\<close>

theorem CheckRateLimit_blocked:
  assumes "q_IsBlocked (handleGetRateLimitStatus now s clientID resource)"
      and "now < q_BlockedUntil (handleGetRateLimitStatus now s clientID resource)"
  shows "CheckRateLimit now clk s clientID resource ipAddress userAgent
           = (Inr (handleGetRateLimitStatus now s clientID resource), s)"
  using assms by (simp add: CheckRateLimit_def Let_def)

lemma GetRateLimitHistory_depends:
  assumes "filter (\<lambda>event. startTime < h_Timestamp event \<and> h_Timestamp event < endTime)
             (recorded r (clientID @ '':'' @ resource))
           = filter (\<lambda>event. startTime < h_Timestamp event \<and> h_Timestamp event < endTime)
             (recorded r' (clientID @ '':'' @ resource))"
  shows "GetRateLimitHistory r clientID resource startTime endTime limit offset
       = GetRateLimitHistory r' clientID resource startTime endTime limit offset"
  unfolding GetRateLimitHistory_def Let_def assms ..

lemma filter_inside_boundary:
  "filter (\<lambda>event. (s :: int) < f event \<and> f event < e)
     (filter (\<lambda>event. f event \<noteq> s \<and> f event \<noteq> e) xs)
   = filter (\<lambda>event. s < f event \<and> f event < e) xs"
  by (induction xs) auto

lemma sint_add_no_overflow:
  assumes "0 \<le> sint (a :: go_int)" and "0 < sint (b :: go_int)" and "sint a + sint b < 2 ^ 63"
  shows "sint (a + b) = sint a + sint b"
proof -
  have "- (2 ^ 63) \<le> sint a + sint b"
    using assms(1,2) by simp
  then have "signed_take_bit 63 (sint a + sint b) = sint a + sint b"
    using assms(3) by (simp add: signed_take_bit_int_eq_self)
  then show ?thesis
    by (simp add: sint_word_ariths)
qed

text \<open>With the pagination that the HTTP handler lets through (an offset that is not
  negative, a positive limit) and a sum that does not overflow, the query returns.\<close>

lemma GetRateLimitHistory_returns:
  assumes "0 \<le>s offset" and "0 <s limit" and "sint offset + sint limit < 2 ^ 63"
  shows "\<exists>h. GetRateLimitHistory r clientID resource startTime endTime limit offset = Inr h"
proof -
  have s: "sint (offset + limit) = sint offset + sint limit"
    using assms by (intro sint_add_no_overflow) (simp_all add: word_sle_eq word_sless_alt)
  show ?thesis
    using assms(1,2) s
    by (auto simp add: GetRateLimitHistory_def Let_def word_sle_eq word_sless_alt)
qed

text \<open>
  Claim C10.  The filter of \<open>GetRateLimitHistory\<close> is strict at both ends.  Every event
  it returns has its timestamp strictly after \<open>startTime\<close> and strictly before
  \<open>endTime\<close>, and \<open>totalCount\<close> counts exactly the recorded events strictly inside; so
  the answer is the same as on a history from which every event stamped exactly
  \<open>startTime\<close> or exactly \<open>endTime\<close> has been removed.  With an offset that is not
  negative and a positive limit whose sum does not overflow, the query does return.
\<close>

theorem history_window_exclusive:
  "(\<forall>h. GetRateLimitHistory r clientID resource startTime endTime limit offset = Inr h \<longrightarrow>
        (\<forall>event \<in> set (Events h). startTime < h_Timestamp event \<and> h_Timestamp event < endTime)
        \<and> TotalCount h
            = of_nat (length (filter (\<lambda>event. startTime < h_Timestamp event \<and> h_Timestamp event < endTime)
                               (recorded r (clientID @ '':'' @ resource)))))
   \<and> GetRateLimitHistory
        (r\<lparr> history := (history r)(clientID @ '':'' @ resource \<mapsto>
               filter (\<lambda>event. h_Timestamp event \<noteq> startTime \<and> h_Timestamp event \<noteq> endTime)
                 (recorded r (clientID @ '':'' @ resource))) \<rparr>)
        clientID resource startTime endTime limit offset
      = GetRateLimitHistory r clientID resource startTime endTime limit offset
   \<and> (0 \<le>s offset \<and> 0 <s limit \<and> sint offset + sint limit < 2 ^ 63 \<longrightarrow>
        (\<exists>h. GetRateLimitHistory r clientID resource startTime endTime limit offset = Inr h))"
proof -
  let ?key = "clientID @ '':'' @ resource"
  let ?inside = "\<lambda>event. startTime < h_Timestamp event \<and> h_Timestamp event < endTime"
  let ?r' = "r\<lparr> history := (history r)(?key \<mapsto>
               filter (\<lambda>event. h_Timestamp event \<noteq> startTime \<and> h_Timestamp event \<noteq> endTime)
                 (recorded r ?key)) \<rparr>"
  have sub: "\<And>n m xs. set (take n (drop m (filter ?inside xs))) \<subseteq> {event. ?inside event}"
    by (auto dest!: in_set_takeD in_set_dropD)
  have part1: "\<forall>h. GetRateLimitHistory r clientID resource startTime endTime limit offset = Inr h \<longrightarrow>
        (\<forall>event \<in> set (Events h). ?inside event)
        \<and> TotalCount h = of_nat (length (filter ?inside (recorded r ?key)))"
    using sub by (auto simp add: GetRateLimitHistory_def Let_def split: if_splits)
  have "recorded ?r' ?key
          = filter (\<lambda>event. h_Timestamp event \<noteq> startTime \<and> h_Timestamp event \<noteq> endTime) (recorded r ?key)"
    by (simp add: recorded_def)
  then have "filter ?inside (recorded ?r' ?key) = filter ?inside (recorded r ?key)"
    by (simp only: filter_inside_boundary)
  then have part2: "GetRateLimitHistory ?r' clientID resource startTime endTime limit offset
      = GetRateLimitHistory r clientID resource startTime endTime limit offset"
    by (rule GetRateLimitHistory_depends)
  have part3: "0 \<le>s offset \<and> 0 <s limit \<and> sint offset + sint limit < 2 ^ 63 \<longrightarrow>
        (\<exists>h. GetRateLimitHistory r clientID resource startTime endTime limit offset = Inr h)"
    using GetRateLimitHistory_returns by blast
  show ?thesis
    using part1 part2 part3 by blast
qed

section \<open>Condition operators\<close>

text \<open>Since \<open>ok\<close> is never set, \<open>compareNumbers\<close> returns 0 on all operands, numeric or
  not; the four ordering operators therefore do not depend on their operands.\<close>

lemma compareNumbers_zero: "compareNumbers lib a b = 0"
  by (simp add: compareNumbers_def split: option.splits)

lemma numeric_operators:
  "evaluateOperator lib ''greater_than'' v w = Inr False"
  "evaluateOperator lib ''less_than'' v w = Inr False"
  "evaluateOperator lib ''greater_equal'' v w = Inr True"
  "evaluateOperator lib ''less_equal'' v w = Inr True"
  by (simp_all add: evaluateOperator_def compareNumbers_zero word_sless_alt word_sle_eq)

text \<open>
  Claim C7 fails for \<open>greater_equal\<close> and \<open>less_equal\<close>.  The field \<open>client_id\<close> resolves
  to the string \<open>u\<close> and the condition value is the string \<open>abc\<close>; neither is of a
  numeric type, \<open>compareNumbers\<close> answers 0 ("cannot compare"), and the callers'
  tests \<open>>= 0\<close> and \<open><= 0\<close> make both conditions true.
\<close>

theorem greater_equal_on_strings:
  "fieldValueOf ''client_id'' botContext = Some (GString ''u'')
   \<and> toFloat64 exampleLib (GString ''u'') = None
   \<and> toFloat64 exampleLib (GString ''abc'') = None
   \<and> evaluateCondition exampleLib
        \<lparr> cond_Field = ''client_id'', cond_Operator = ''greater_equal'', cond_Value = GString ''abc'' \<rparr>
        botContext = Inr True
   \<and> evaluateCondition exampleLib
        \<lparr> cond_Field = ''client_id'', cond_Operator = ''less_equal'', cond_Value = GString ''abc'' \<rparr>
        botContext = Inr True"
  by (simp add: evaluateCondition_def fieldValueOf_def botContext_def numeric_operators)

lemma inValues_notInValues:
  "notInValues v ws = (case inValues v ws of Inl err \<Rightarrow> Inl err | Inr b \<Rightarrow> Inr (\<not> b))"
  by (induction ws) (auto split: sum.splits)

text \<open>
  Claim C8, as the code has it.  On a field that resolves, \<open>not_equals\<close> is true exactly
  when \<open>equals\<close> is false, and false exactly when \<open>equals\<close> is true (where the
  comparison panics, both do).  When the condition value is a sequence of candidates,
  \<open>[]interface{}\<close>, the same holds of \<open>not_in\<close> and \<open>in\<close>.  When the condition value is
  of any other type, a candidate list of another slice type such as \<open>[]string\<close>
  included, \<open>in\<close> and \<open>not_in\<close> are both false.
\<close>

theorem operator_complements:
  assumes "fieldValueOf (cond_Field c) ctx = Some v"
  shows "(evaluateCondition lib (c\<lparr> cond_Operator := ''not_equals'' \<rparr>) ctx = Inr True
            \<longleftrightarrow> evaluateCondition lib (c\<lparr> cond_Operator := ''equals'' \<rparr>) ctx = Inr False)
       \<and> (evaluateCondition lib (c\<lparr> cond_Operator := ''not_equals'' \<rparr>) ctx = Inr False
            \<longleftrightarrow> evaluateCondition lib (c\<lparr> cond_Operator := ''equals'' \<rparr>) ctx = Inr True)
       \<and> (\<forall>candidates. cond_Value c = GSlice candidates \<longrightarrow>
            (evaluateCondition lib (c\<lparr> cond_Operator := ''not_in'' \<rparr>) ctx = Inr True
               \<longleftrightarrow> evaluateCondition lib (c\<lparr> cond_Operator := ''in'' \<rparr>) ctx = Inr False)
            \<and> (evaluateCondition lib (c\<lparr> cond_Operator := ''not_in'' \<rparr>) ctx = Inr False
               \<longleftrightarrow> evaluateCondition lib (c\<lparr> cond_Operator := ''in'' \<rparr>) ctx = Inr True))
       \<and> ((\<forall>candidates. cond_Value c \<noteq> GSlice candidates) \<longrightarrow>
            evaluateCondition lib (c\<lparr> cond_Operator := ''in'' \<rparr>) ctx = Inr False
            \<and> evaluateCondition lib (c\<lparr> cond_Operator := ''not_in'' \<rparr>) ctx = Inr False)"
proof -
  have eq: "(evaluateCondition lib (c\<lparr> cond_Operator := ''not_equals'' \<rparr>) ctx = Inr True
            \<longleftrightarrow> evaluateCondition lib (c\<lparr> cond_Operator := ''equals'' \<rparr>) ctx = Inr False)
       \<and> (evaluateCondition lib (c\<lparr> cond_Operator := ''not_equals'' \<rparr>) ctx = Inr False
            \<longleftrightarrow> evaluateCondition lib (c\<lparr> cond_Operator := ''equals'' \<rparr>) ctx = Inr True)"
    using assms by (auto simp add: evaluateCondition_def evaluateOperator_def split: sum.splits)
  have mem: "\<And>candidates. cond_Value c = GSlice candidates \<Longrightarrow>
            (evaluateCondition lib (c\<lparr> cond_Operator := ''not_in'' \<rparr>) ctx = Inr True
               \<longleftrightarrow> evaluateCondition lib (c\<lparr> cond_Operator := ''in'' \<rparr>) ctx = Inr False)
            \<and> (evaluateCondition lib (c\<lparr> cond_Operator := ''not_in'' \<rparr>) ctx = Inr False
               \<longleftrightarrow> evaluateCondition lib (c\<lparr> cond_Operator := ''in'' \<rparr>) ctx = Inr True)"
    using assms
    by (auto simp add: evaluateCondition_def evaluateOperator_def inValues_notInValues split: sum.splits)
  have other: "(\<forall>candidates. cond_Value c \<noteq> GSlice candidates) \<Longrightarrow>
            evaluateCondition lib (c\<lparr> cond_Operator := ''in'' \<rparr>) ctx = Inr False
            \<and> evaluateCondition lib (c\<lparr> cond_Operator := ''not_in'' \<rparr>) ctx = Inr False"
    using assms
    by (cases "cond_Value c") (simp_all add: evaluateCondition_def evaluateOperator_def)
  show ?thesis
    using eq mem other by blast
qed

text \<open>
  Claim C8 as stated fails on a candidate list that is not held as \<open>[]interface{}\<close>.
  The field \<open>client_id\<close> resolves to \<open>u\<close> and the condition value is the \<open>[]string\<close> list
  of the candidates \<open>u\<close> and \<open>v\<close>: the type assertion of both operators refuses it,
  so \<open>in\<close> is false although \<open>u\<close> is a candidate, and \<open>not_in\<close> is false as well.
\<close>

theorem not_in_counterexample:
  "fieldValueOf ''client_id'' botContext = Some (GString ''u'')
   \<and> ''u'' \<in> set [''u'', ''v'']
   \<and> evaluateCondition exampleLib
        \<lparr> cond_Field = ''client_id'', cond_Operator = ''in'', cond_Value = GStrings [''u'', ''v''] \<rparr>
        botContext = Inr False
   \<and> evaluateCondition exampleLib
        \<lparr> cond_Field = ''client_id'', cond_Operator = ''not_in'', cond_Value = GStrings [''u'', ''v''] \<rparr>
        botContext = Inr False"
  by (simp add: evaluateCondition_def evaluateOperator_def fieldValueOf_def botContext_def)

section \<open>The integrated service\<close>

lemma hasBlockingType_iff:
  "hasBlockingType actions \<longleftrightarrow>
     (\<exists>action \<in> set actions. act_Type action = ''deny'' \<or> act_Type action = ''block'')"
  by (induction actions) auto

lemma HasBlockingAction_iff:
  "HasBlockingAction results \<longleftrightarrow>
     (\<exists>result \<in> set results. res_Matched result \<and> hasBlockingType (res_Actions result))"
  by (induction results) auto

lemma getFirstBlockingRuleID_find:
  "find (\<lambda>result. res_Matched result \<and> hasBlockingType (res_Actions result)) results = Some first
     \<Longrightarrow> getFirstBlockingRuleID results = res_RuleID first"
  by (induction results) (auto split: if_splits)

lemma find_exists: "\<exists>x \<in> set xs. P x \<Longrightarrow> \<exists>y. find P xs = Some y"
  by (induction xs) auto

lemma CheckRequestWithRules_blocking:
  assumes "EvaluateRules lib now (ruleEngine s)
             \<lparr> ctx_ClientID = clientID, ctx_Resource = resource, ctx_IPAddress = ipAddress,
               ctx_UserAgent = userAgent, ctx_Timestamp = stamp, ctx_Metadata = metadata,
               ctx_RequestData = requestData \<rparr> = (Inr results, e1)"
      and "HasBlockingAction results"
  shows "CheckRequestWithRules lib stamp now clk s clientID resource ipAddress userAgent metadata requestData
             = (Inr \<lparr> cr_Allowed = False, cr_Reason = ''blocked by rule'', cr_RuleResults = results,
                      cr_RateLimitStatus = None, cr_BlockingRuleID = getFirstBlockingRuleID results,
                      cr_AppliedActions = [] \<rparr>,
                s\<lparr> ruleEngine := e1 \<rparr>)"
  unfolding CheckRequestWithRules_def Let_def assms(1)
  by (simp only: prod.case sum.case assms(2) if_True)

text \<open>
  Claim C1.  When the rule engine returns its results and one of them is matched and
  holds an action of type \<open>deny\<close> or \<open>block\<close>, \<open>CheckRequestWithRules\<close> answers with
  \<open>allowed = false\<close>, the reason \<open>blocked by rule\<close>, no rate-limit status, and as
  blocking rule the id of the first such result in the order of evaluation.  The state
  it leaves differs from the one it found in the rule engine's publisher only: the
  rate limiter, with its event store, rule repository and read model, is untouched.
  The rate limiter's state and the priorities of the rules are arbitrary.
\<close>

theorem blocked_by_rule:
  assumes "EvaluateRules lib now (ruleEngine s)
             \<lparr> ctx_ClientID = clientID, ctx_Resource = resource, ctx_IPAddress = ipAddress,
               ctx_UserAgent = userAgent, ctx_Timestamp = stamp, ctx_Metadata = metadata,
               ctx_RequestData = requestData \<rparr> = (Inr results, e1)"
      and "\<exists>result \<in> set results. res_Matched result
              \<and> (\<exists>action \<in> set (res_Actions result). act_Type action = ''deny'' \<or> act_Type action = ''block'')"
  shows "\<exists>first.
           find (\<lambda>result. res_Matched result
                   \<and> (\<exists>action \<in> set (res_Actions result). act_Type action = ''deny'' \<or> act_Type action = ''block''))
             results = Some first
         \<and> CheckRequestWithRules lib stamp now clk s clientID resource ipAddress userAgent metadata requestData
             = (Inr \<lparr> cr_Allowed = False, cr_Reason = ''blocked by rule'', cr_RuleResults = results,
                      cr_RateLimitStatus = None, cr_BlockingRuleID = res_RuleID first,
                      cr_AppliedActions = [] \<rparr>,
                s\<lparr> ruleEngine := e1 \<rparr>)
         \<and> rateLimiterService
             (snd (CheckRequestWithRules lib stamp now clk s clientID resource ipAddress userAgent metadata requestData))
             = rateLimiterService s"
proof -
  have ex: "\<exists>result \<in> set results. res_Matched result \<and> hasBlockingType (res_Actions result)"
    using assms(2) by (simp only: hasBlockingType_iff)
  have "\<exists>first. find (\<lambda>result. res_Matched result \<and> hasBlockingType (res_Actions result)) results = Some first"
    using ex by (rule find_exists)
  then obtain first
    where f: "find (\<lambda>result. res_Matched result \<and> hasBlockingType (res_Actions result)) results = Some first"
    ..
  have has: "HasBlockingAction results"
    using ex by (simp only: HasBlockingAction_iff)
  have ident: "getFirstBlockingRuleID results = res_RuleID first"
    using f by (rule getFirstBlockingRuleID_find)
  have c: "CheckRequestWithRules lib stamp now clk s clientID resource ipAddress userAgent metadata requestData
             = (Inr \<lparr> cr_Allowed = False, cr_Reason = ''blocked by rule'', cr_RuleResults = results,
                      cr_RateLimitStatus = None, cr_BlockingRuleID = res_RuleID first,
                      cr_AppliedActions = [] \<rparr>,
                s\<lparr> ruleEngine := e1 \<rparr>)"
    using CheckRequestWithRules_blocking [OF assms(1) has] by (simp only: ident)
  have f': "find (\<lambda>result. res_Matched result
                   \<and> (\<exists>action \<in> set (res_Actions result). act_Type action = ''deny'' \<or> act_Type action = ''block''))
             results = Some first"
    using f by (simp only: hasBlockingType_iff)
  have r: "rateLimiterService
             (snd (CheckRequestWithRules lib stamp now clk s clientID resource ipAddress userAgent metadata requestData))
             = rateLimiterService s"
    by (simp add: c)
  show ?thesis
    by (rule exI [of _ first]) (intro conjI f' c r)
qed

section \<open>The claims at concrete inputs\<close>

lemmas example_defs = t0_def t1_def t2_def Minute_def steady_def apiRule_def zeroRule_def limiterWith_def
  firstApplied_def afterFirst_def NewInMemoryEventStore_def NewInMemoryReadModel_def
  Minutes15_def loginRule_def blockedStatus_def blockedLimiter_def historyEventAt_def historyModel_def

lemmas eval_defs = GetByResource_def GetEvents_def stored_def NewRateLimitAggregate_def
  CanMakeRequest_def zeroTime_def SaveEvents_def Let_def Truncate_def Add_def
  UnixNano_def formatInt_def digitsOf.simps word_sless_alt word_sle_eq ApplyEvent_def
  rehydrate_def

text \<open>Claim C2 at a store that holds one event for \<open>u:api\<close>: a save that expects
  version 0 is refused and changes nothing, a save that expects version 1 appends.\<close>

theorem SaveEvents_conflict_iff_witness:
  "of_nat (length (stored [''u:api'' \<mapsto> [firstApplied 100]] ''u:api'')) \<noteq> (0 :: go_int)
   \<and> SaveEvents [''u:api'' \<mapsto> [firstApplied 100]] ''u:api'' [firstApplied 7] 0
       = (Inl (ConcurrencyConflict 0 1), [''u:api'' \<mapsto> [firstApplied 100]])
   \<and> of_nat (length (stored [''u:api'' \<mapsto> [firstApplied 100]] ''u:api'')) = (1 :: go_int)
   \<and> fst (SaveEvents [''u:api'' \<mapsto> [firstApplied 100]] ''u:api'' [firstApplied 7] 1) = Inr ()
   \<and> stored (snd (SaveEvents [''u:api'' \<mapsto> [firstApplied 100]] ''u:api'' [firstApplied 7] 1)) ''u:api''
       = [firstApplied 100, firstApplied 7]"
proof -
  have ne: "of_nat (length (stored [''u:api'' \<mapsto> [firstApplied 100]] ''u:api'')) \<noteq> (0 :: go_int)"
    by (simp add: stored_def)
  have eq: "of_nat (length (stored [''u:api'' \<mapsto> [firstApplied 100]] ''u:api'')) = (1 :: go_int)"
    by (simp add: stored_def)
  show ?thesis
    using SaveEvents_conflict_iff [of "[''u:api'' \<mapsto> [firstApplied 100]]" "''u:api''" "[firstApplied 7]" 0]
          SaveEvents_conflict_iff [of "[''u:api'' \<mapsto> [firstApplied 100]]" "''u:api''" "[firstApplied 7]" 1]
          ne eq
    by (simp add: stored_def prod_eq_iff)
qed

text \<open>
  Claim C6 fails where the clock passes the end of a window between the two readings
  that \<open>handleApplyRateLimit\<close> takes for \<open>WindowStart\<close> and for \<open>WindowEnd\<close>: each is its own
  call of \<open>time.Now()\<close>, where \<open>CanMakeRequest\<close> reads the clock once and uses the reading
  twice.  Client \<open>u\<close> has one admitted request for \<open>api\<close> on record, under the rule of
  100 requests a minute; the second request runs with the clock \<open>straddling\<close>.  It is
  admitted with request count 2 and remaining quota 98, the window of its event starts
  at the minute of the first reading and ends at the end of the following minute: the
  window is two minutes long, not the start plus the rule's one minute.
\<close>

theorem window_reads_straddle:
  "GetByResource (ruleRepository (afterFirst apiRule)) ''api'' = [apiRule]
   \<and> rl_Window apiRule = 60000000000
   \<and> GetEvents (eventStore (afterFirst apiRule)) ''u:api'' = [firstApplied 100]
   \<and> st_RequestCount (agg_State (rehydrate (replayAt straddling) ''u'' ''api'' [firstApplied 100])) = 1
   \<and> CanMakeRequest (canMakeAt straddling)
         (rehydrate (replayAt straddling) ''u'' ''api'' [firstApplied 100]) apiRule
   \<and> windowStartAt straddling < windowEndAt straddling
   \<and> fst (handleApplyRateLimit straddling (afterFirst apiRule) ''u'' ''api'') = Inr ()
   \<and> GetEvents (eventStore (snd (handleApplyRateLimit straddling (afterFirst apiRule) ''u'' ''api''))) ''u:api''
      = [firstApplied 100,
         EApplied
           \<lparr> ev_ID = ''applied-864403259999999997'',
             ev_Type = ''RateLimitApplied'',
             ev_Time = 63000000059999999998,
             ev_AggrID = ''u:api'',
             ev_Version = 2,
             ap_ClientID = ''u'',
             ap_Resource = ''api'',
             ap_WindowStart = 63000000000000000000,
             ap_WindowEnd = 63000000120000000000,
             ap_RequestCount = 2,
             ap_Limit = 100,
             ap_RemainingQuota = 98 \<rparr>]"
  by (simp add: handleApplyRateLimit_def straddling_def example_defs eval_defs)

text \<open>
  Claim C3 as stated fails on the fresh aggregate: under the rule \<open>zeroRule\<close>, of limit 0,
  the first request of client \<open>u\<close> for \<open>api\<close> succeeds and the one event it appends is a
  \<open>RateLimitApplied\<close> event, with remaining quota \<open>-1\<close>.
\<close>

theorem zero_limit_fresh_counterexample:
  "rl_Limit zeroRule = 0
   \<and> GetByResource (ruleRepository (limiterWith zeroRule)) ''api'' = [zeroRule]
   \<and> GetEvents (eventStore (limiterWith zeroRule)) ''u:api'' = []
   \<and> handleApplyRateLimit (steady t0) (limiterWith zeroRule) ''u'' ''api'' = (Inr (), afterFirst zeroRule)
   \<and> GetEvents (eventStore (afterFirst zeroRule)) ''u:api''
      = [EApplied
           \<lparr> ev_ID = ''applied-864403207000000000'',
             ev_Type = ''RateLimitApplied'',
             ev_Time = 63000000007000000000,
             ev_AggrID = ''u:api'',
             ev_Version = 1,
             ap_ClientID = ''u'',
             ap_Resource = ''api'',
             ap_WindowStart = 63000000000000000000,
             ap_WindowEnd = 63000000060000000000,
             ap_RequestCount = 1,
             ap_Limit = 0,
             ap_RemainingQuota = - 1 \<rparr>]"
  by (simp add: handleApplyRateLimit_def example_defs eval_defs)

text \<open>The amended claim C3 at the second request, one second later in the same
  window: no quota remains, and the request is denied.\<close>

theorem zero_limit_decision_witness:
  "GetByResource (ruleRepository (afterFirst zeroRule)) ''api'' = [zeroRule]
   \<and> rl_Limit zeroRule = 0
   \<and> canMakeAt (steady t1)
        \<le> st_WindowEnd (agg_State (rehydrate (replayAt (steady t1)) ''u'' ''api''
               (GetEvents (eventStore (afterFirst zeroRule)) ''u:api'')))
   \<and> st_RemainingQuota (agg_State (rehydrate (replayAt (steady t1)) ''u'' ''api''
               (GetEvents (eventStore (afterFirst zeroRule)) ''u:api''))) \<le>s 0
   \<and> fst (handleApplyRateLimit (steady t1) (afterFirst zeroRule) ''u'' ''api'') = Inr ()
   \<and> map EventType (GetEvents (eventStore (snd (handleApplyRateLimit (steady t1) (afterFirst zeroRule) ''u'' ''api''))) ''u:api'')
      = [''RateLimitApplied'', ''RateLimitExceeded'']"
proof -
  have rules: "GetByResource (ruleRepository (afterFirst zeroRule)) ''api'' = zeroRule # []"
    by (simp add: example_defs eval_defs)
  have lim: "rl_Limit zeroRule = 0"
    by (simp add: zeroRule_def)
  have agg: "rehydrate (replayAt (steady t1)) ''u'' ''api''
               (GetEvents (eventStore (afterFirst zeroRule)) ''u:api'')
      = rehydrate (replayAt (steady t1)) ''u'' ''api''
          (GetEvents (eventStore (afterFirst zeroRule)) (''u'' @ '':'' @ ''api''))"
    by simp
  have den: "canMakeAt (steady t1)
        \<le> st_WindowEnd (agg_State (rehydrate (replayAt (steady t1)) ''u'' ''api''
               (GetEvents (eventStore (afterFirst zeroRule)) ''u:api'')))
     \<and> st_RemainingQuota (agg_State (rehydrate (replayAt (steady t1)) ''u'' ''api''
               (GetEvents (eventStore (afterFirst zeroRule)) ''u:api''))) \<le>s 0"
    by (simp add: example_defs eval_defs)
  show ?thesis
    using zero_limit_decision [OF rules lim agg] rules lim den
    by (simp add: example_defs GetEvents_def stored_def)
qed

text \<open>
  Claim C4 fails on every aggregate that has an event.  \<open>handleResetRateLimit\<close> saves
  with the expected version 0 whatever the stream holds, where \<open>handleApplyRateLimit\<close>
  passes the version of the aggregate it has rebuilt.  After one admitted request of
  client \<open>u\<close> for \<open>login\<close>, the reset is refused with the concurrency conflict
  "expected version 0, got 1" and the state is as before: no reset event is persisted.
\<close>

theorem reset_after_request_fails:
  "fst (handleApplyRateLimit (steady t0) (limiterWith loginRule) ''u'' ''login'') = Inr ()
   \<and> map EventType (GetEvents (eventStore (snd (handleApplyRateLimit (steady t0) (limiterWith loginRule) ''u'' ''login''))) ''u:login'')
       = [''RateLimitApplied'']
   \<and> ResetRateLimit t1 (steady t1) (snd (handleApplyRateLimit (steady t0) (limiterWith loginRule) ''u'' ''login'')) ''u'' ''login''
       = (Inl (ConcurrencyConflict 0 1), snd (handleApplyRateLimit (steady t0) (limiterWith loginRule) ''u'' ''login''))"
  by (simp add: handleApplyRateLimit_def ResetRateLimit_def handleResetRateLimit_def example_defs eval_defs)

text \<open>Claim C9 at a read model that holds a denied status for \<open>u:api\<close>, blocked until
  the end of the minute.\<close>

theorem CheckRateLimit_blocked_witness:
  "q_IsBlocked (handleGetRateLimitStatus t1 blockedLimiter ''u'' ''api'')
   \<and> t1 < q_BlockedUntil (handleGetRateLimitStatus t1 blockedLimiter ''u'' ''api'')
   \<and> CheckRateLimit t1 (steady t1) blockedLimiter ''u'' ''api'' ''10.0.0.1'' ''curl''
       = (Inr blockedStatus, blockedLimiter)"
proof -
  have st: "handleGetRateLimitStatus t1 blockedLimiter ''u'' ''api'' = blockedStatus"
    by (simp add: handleGetRateLimitStatus_def GetRateLimitStatus_def blockedLimiter_def)
  have b: "q_IsBlocked (handleGetRateLimitStatus t1 blockedLimiter ''u'' ''api'')"
    unfolding st by (simp add: blockedStatus_def)
  have u: "t1 < q_BlockedUntil (handleGetRateLimitStatus t1 blockedLimiter ''u'' ''api'')"
    unfolding st by (simp add: blockedStatus_def t1_def)
  show ?thesis
    using CheckRateLimit_blocked [OF b u, of "steady t1" "''10.0.0.1''" "''curl''"] b u
    by (simp add: st)
qed

text \<open>Claim C10 at a history with events at \<open>t0\<close>, \<open>t1\<close> and \<open>t2\<close>, queried from \<open>t0\<close>
  to \<open>t2\<close>: only the event at \<open>t1\<close> is returned and counted.\<close>

theorem history_window_exclusive_witness:
  "0 \<le>s (0 :: go_int) \<and> 0 <s (100 :: go_int) \<and> sint (0 :: go_int) + sint (100 :: go_int) < 2 ^ 63
   \<and> GetRateLimitHistory historyModel ''u'' ''api'' t0 t2 100 0
       = Inr \<lparr> Events = [historyEventAt t1], TotalCount = 1, HasMore = False \<rparr>
   \<and> h_Timestamp (historyEventAt t0) = t0 \<and> h_Timestamp (historyEventAt t2) = t2
   \<and> t0 < h_Timestamp (historyEventAt t1) \<and> h_Timestamp (historyEventAt t1) < t2"
proof -
  have r: "GetRateLimitHistory historyModel ''u'' ''api'' t0 t2 100 0
       = Inr \<lparr> Events = [historyEventAt t1], TotalCount = 1, HasMore = False \<rparr>"
    by (simp add: GetRateLimitHistory_def recorded_def example_defs Let_def word_sless_alt word_sle_eq)
  have p: "0 \<le>s (0 :: go_int) \<and> 0 <s (100 :: go_int) \<and> sint (0 :: go_int) + sint (100 :: go_int) < 2 ^ 63"
    by (simp add: word_sless_alt word_sle_eq)
  show ?thesis
    using history_window_exclusive [of historyModel "''u''" "''api''" t0 t2 100 0] r p
    by (simp add: historyEventAt_def t0_def t1_def t2_def)
qed

text \<open>Claim C8, amended, at a condition on \<open>ip_address\<close> whose value is a sequence of
  two candidates, the second of them the address of the request.\<close>

theorem operator_complements_witness:
  "fieldValueOf ''ip_address'' botContext = Some (GString ''192.168.1.5'')
   \<and> evaluateCondition exampleLib
        \<lparr> cond_Field = ''ip_address'', cond_Operator = ''in'',
          cond_Value = GSlice [GString ''10.0.0.1'', GString ''192.168.1.5''] \<rparr> botContext = Inr True
   \<and> evaluateCondition exampleLib
        \<lparr> cond_Field = ''ip_address'', cond_Operator = ''not_in'',
          cond_Value = GSlice [GString ''10.0.0.1'', GString ''192.168.1.5''] \<rparr> botContext = Inr False
   \<and> evaluateCondition exampleLib
        \<lparr> cond_Field = ''ip_address'', cond_Operator = ''equals'',
          cond_Value = GSlice [GString ''10.0.0.1'', GString ''192.168.1.5''] \<rparr> botContext = Inr False
   \<and> evaluateCondition exampleLib
        \<lparr> cond_Field = ''ip_address'', cond_Operator = ''not_equals'',
          cond_Value = GSlice [GString ''10.0.0.1'', GString ''192.168.1.5''] \<rparr> botContext = Inr True"
proof -
  have fv: "fieldValueOf (cond_Field
               \<lparr> cond_Field = ''ip_address'', cond_Operator = ''in'',
                 cond_Value = GSlice [GString ''10.0.0.1'', GString ''192.168.1.5''] \<rparr>) botContext
             = Some (GString ''192.168.1.5'')"
    by (simp add: fieldValueOf_def botContext_def)
  have isin: "evaluateCondition exampleLib
        \<lparr> cond_Field = ''ip_address'', cond_Operator = ''in'',
          cond_Value = GSlice [GString ''10.0.0.1'', GString ''192.168.1.5''] \<rparr> botContext = Inr True"
    by (simp add: evaluateCondition_def evaluateOperator_def fieldValueOf_def botContext_def ifaceEq_def)
  have iseq: "evaluateCondition exampleLib
        \<lparr> cond_Field = ''ip_address'', cond_Operator = ''equals'',
          cond_Value = GSlice [GString ''10.0.0.1'', GString ''192.168.1.5''] \<rparr> botContext = Inr False"
    by (simp add: evaluateCondition_def evaluateOperator_def fieldValueOf_def botContext_def ifaceEq_def)
  show ?thesis
    using operator_complements [OF fv, of exampleLib] fv isin iseq
    by simp
qed

text \<open>The default rules on the request of \<open>botContext\<close>: the whitelist rule, of the
  highest priority, is evaluated first and matches with \<open>allow\<close>; the rule against
  suspicious user agents matches with \<open>deny\<close>; the login rule does not match.\<close>

lemma default_rules_sorted:
  "sortByPriority (GetActiveRules (re_ruleRepository (ruleEngine defaultService)))
     = [whitelistRule, suspiciousUserAgentRule, aggressiveLoginRule]"
proof -
  have p: "rule_Priority whitelistRule = 300" "rule_Priority suspiciousUserAgentRule = 200"
          "rule_Priority aggressiveLoginRule = 150"
    by (simp_all add: whitelistRule_def suspiciousUserAgentRule_def aggressiveLoginRule_def)
  have e: "rule_Enabled whitelistRule" "rule_Enabled suspiciousUserAgentRule"
          "rule_Enabled aggressiveLoginRule"
    by (simp_all add: whitelistRule_def suspiciousUserAgentRule_def aggressiveLoginRule_def)
  show ?thesis
    by (simp add: sortByPriority_def GetActiveRules_def defaultService_def p e)
qed

lemma whitelist_result:
  "EvaluateRule exampleLib t0 whitelistRule botContext
     = Inr \<lparr> res_RuleID = ''whitelist-internal-ips'', res_RuleName = ''Whitelist Internal IPs'',
             res_Matched = True, res_Actions = rule_Actions whitelistRule,
             res_Metadata = Map.empty, res_EvaluatedAt = t0 \<rparr>"
  by (simp add: EvaluateRule_def whitelistRule_def botContext_def evaluateCondition_def
        evaluateOperator_def fieldValueOf_def)

lemma suspicious_result:
  "EvaluateRule exampleLib t0 suspiciousUserAgentRule botContext
     = Inr \<lparr> res_RuleID = ''block-suspicious-agents'', res_RuleName = ''Block Suspicious User Agents'',
             res_Matched = True, res_Actions = rule_Actions suspiciousUserAgentRule,
             res_Metadata = Map.empty, res_EvaluatedAt = t0 \<rparr>"
  by (simp add: EvaluateRule_def suspiciousUserAgentRule_def botContext_def evaluateCondition_def
        evaluateOperator_def fieldValueOf_def containsString_def findSubstring_def
        findSubstringFrom.simps)

lemma login_result:
  "EvaluateRule exampleLib t0 aggressiveLoginRule botContext
     = Inr \<lparr> res_RuleID = ''aggressive-login-rate-limit'', res_RuleName = ''Aggressive Login Rate Limiting'',
             res_Matched = False, res_Actions = [],
             res_Metadata = Map.empty, res_EvaluatedAt = t0 \<rparr>"
  by (simp add: EvaluateRule_def aggressiveLoginRule_def botContext_def evaluateCondition_def
        evaluateOperator_def fieldValueOf_def ifaceEq_def)

lemma default_evaluation:
  "EvaluateRules exampleLib t0 (ruleEngine defaultService) botContext
     = (Inr botResults, ruleEngine defaultService)"
proof -
  have pub: "re_eventPublisher (ruleEngine defaultService) = []"
    by (simp add: defaultService_def)
  have same: "(ruleEngine defaultService)\<lparr> re_eventPublisher := [] \<rparr> = ruleEngine defaultService"
    by (simp add: defaultService_def)
  show ?thesis
    by (simp add: EvaluateRules_def default_rules_sorted whitelist_result suspicious_result
          login_result pub same PublishRuleEvaluated_def PublishRuleMatched_def botResults_def)
qed

text \<open>Claim C1 at that request: the deny of the rule of priority 200 decides, although
  the whitelist rule of priority 300 matched before it, and the service is left as it
  was.\<close>

theorem blocked_by_rule_witness:
  "EvaluateRules exampleLib t0 (ruleEngine defaultService) botContext
     = (Inr botResults, ruleEngine defaultService)
   \<and> res_Matched (botResults ! 1)
   \<and> map act_Type (res_Actions (botResults ! 1)) = [''deny'']
   \<and> sint (rule_Priority suspiciousUserAgentRule) < sint (rule_Priority whitelistRule)
   \<and> CheckRequestWithRules exampleLib exampleStamp t0 (steady t0) defaultService
        ''u'' ''api'' ''192.168.1.5'' ''bot-tester/1.0'' Map.empty Map.empty
      = (Inr \<lparr> cr_Allowed = False, cr_Reason = ''blocked by rule'', cr_RuleResults = botResults,
               cr_RateLimitStatus = None, cr_BlockingRuleID = ''block-suspicious-agents'',
               cr_AppliedActions = [] \<rparr>,
         defaultService)"
proof -
  have ev: "EvaluateRules exampleLib t0 (ruleEngine defaultService)
              \<lparr> ctx_ClientID = ''u'', ctx_Resource = ''api'', ctx_IPAddress = ''192.168.1.5'',
                ctx_UserAgent = ''bot-tester/1.0'', ctx_Timestamp = exampleStamp, ctx_Metadata = Map.empty,
                ctx_RequestData = Map.empty \<rparr> = (Inr botResults, ruleEngine defaultService)"
    using default_evaluation by (simp only: botContext_def)
  have blk: "\<exists>result \<in> set botResults. res_Matched result
              \<and> (\<exists>action \<in> set (res_Actions result). act_Type action = ''deny'' \<or> act_Type action = ''block'')"
    by (simp add: botResults_def suspiciousUserAgentRule_def)
  have fnd: "find (\<lambda>result. res_Matched result
                   \<and> (\<exists>action \<in> set (res_Actions result). act_Type action = ''deny'' \<or> act_Type action = ''block''))
             botResults = Some (botResults ! 1)"
    by (simp add: botResults_def suspiciousUserAgentRule_def whitelistRule_def)
  have ident: "res_RuleID (botResults ! 1) = ''block-suspicious-agents''"
    by (simp add: botResults_def)
  have same: "defaultService\<lparr> ruleEngine := ruleEngine defaultService \<rparr> = defaultService"
    by simp
  have facts: "res_Matched (botResults ! 1)
     \<and> map act_Type (res_Actions (botResults ! 1)) = [''deny'']
     \<and> sint (rule_Priority suspiciousUserAgentRule) < sint (rule_Priority whitelistRule)"
    by (simp add: botResults_def suspiciousUserAgentRule_def whitelistRule_def)
  show ?thesis
    using blocked_by_rule [OF ev blk, of "steady t0"] fnd ident same facts default_evaluation
    by auto
qed

end
